theory Spec2Isabelle
  imports Complex_Main "HOL-Library.Sublist"
begin

section \<open>Data model of the service responses\<close>

text \<open>
  The three back ends (\<^verbatim>\<open>quantum_backend.py\<close>, \<^verbatim>\<open>quantum_backend_simple.py\<close>,
  \<^verbatim>\<open>quantum_backend_docker.py\<close>) answer \<^verbatim>\<open>POST /simulate\<close> with a JSON object.
  Python floats are modelled as reals (exact arithmetic, no rounding), Python ints as
  \<open>int\<close>, and Python strings as \<open>string\<close>.  An amplitude \<^verbatim>\<open>[real, imag]\<close> is a pair.
\<close>

record marginal_entry =
  qubit :: int
  prob_0 :: real
  prob_1 :: real

record sim_result =
  success :: bool
  statevector :: "(real \<times> real) list"
  num_qubits :: int
  probabilities :: "real list"
  marginal_probabilities :: "marginal_entry list"
  circuit_depth :: int
  circuit_size :: int

text \<open>
  The Docker back end adds the field \<^verbatim>\<open>simulation_type\<close> and, in its fallback, the field
  \<^verbatim>\<open>circuit_type\<close> to the same object.
\<close>

record docker_result = sim_result +
  simulation_type :: string
  circuit_type_name :: "string option"

text \<open>
  Exceptions are values.  The first five are raised by Python itself on the paths below.
  \<open>External\<close> stands for an exception raised by code outside the repository (Flask while
  reading the request, Qiskit while a script builds or evolves a circuit) whose class
  derives from \<^verbatim>\<open>Exception\<close>; \<open>BaseOnly\<close> stands for one whose class does not
  (\<^verbatim>\<open>SystemExit\<close>, \<^verbatim>\<open>KeyboardInterrupt\<close>, \<^verbatim>\<open>GeneratorExit\<close>), which a script under
  \<^verbatim>\<open>exec\<close> can raise.  \<open>is_exception e\<close> is \<^verbatim>\<open>isinstance(e, Exception)\<close>.
\<close>

datatype 'x exn =
  TypeError | AttributeError | KeyError | IndexError | ValueError string
| External 'x | BaseOnly 'x

fun is_exception :: "'x exn \<Rightarrow> bool" where
  "is_exception (BaseOnly x) = False"
| "is_exception _ = True"

text \<open>
  A failure response has \<^verbatim>\<open>success = False\<close>, an \<^verbatim>\<open>error\<close> text and an HTTP status.  The
  three texts the back ends produce are kept apart; \<open>Simulation_error e\<close> is the text
  \<^verbatim>\<open>f'Simulation error: {str(e)}'\<close> of the \<^verbatim>\<open>except\<close> branch.
\<close>

datatype 'x error_text =
  Missing_qiskit_code | No_circuit_found | Simulation_error "'x exn"

record 'x failure =
  status :: nat
  error :: "'x error_text"

text \<open>
  What a call of a route comes to: the route returns a result, or it returns a failure
  response, or an exception leaves the route function uncaught.
\<close>

datatype ('x, 'r) response =
  Propagated "'x exn" | Failed "'x failure" | Answered 'r

text \<open>The body of a request as \<^verbatim>\<open>request.get_json()\<close> returns it.\<close>

datatype json =
  JNull | JBool bool | JNum real | JStr string | JArr "json list" | JObj "(string \<times> json) list"

section \<open>Strings: \<^verbatim>\<open>str.lower()\<close> and the \<^verbatim>\<open>in\<close> operator\<close>

text \<open>
  \<^verbatim>\<open>s.lower()\<close> on the ASCII letters; every other character is left as it is.  All
  patterns the classifiers look for are ASCII.
\<close>

definition lower_char :: "char \<Rightarrow> char" where
  "lower_char c =
     (let n = (of_char c :: nat) in if 65 \<le> n \<and> n \<le> 90 then char_of (n + 32) else c)"

definition lower :: "string \<Rightarrow> string" where
  "lower s = map lower_char s"

text \<open>\<^verbatim>\<open>p in s\<close> for two strings: \<open>p\<close> occurs in \<open>s\<close> as a contiguous substring.\<close>

fun isin :: "string \<Rightarrow> string \<Rightarrow> bool" where
  "isin p [] = (p = [])"
| "isin p (c # cs) = (prefix p (c # cs) \<or> isin p cs)"

section \<open>The fallback simulator of \<^verbatim>\<open>quantum_backend_simple.py\<close>\<close>

text \<open>
  Lines 80 to 91: the probabilities are computed from the chosen statevector and the
  response object is assembled with constant depth and size.
\<close>

definition amp_prob :: "real \<times> real \<Rightarrow> real" where
  "amp_prob sv = (fst sv)\<^sup>2 + (snd sv)\<^sup>2"

definition assemble :: "int \<Rightarrow> (real \<times> real) list \<Rightarrow> marginal_entry list \<Rightarrow> sim_result" where
  "assemble n sv mp =
     \<lparr> success = True, statevector = sv, num_qubits = n,
       probabilities = map amp_prob sv,
       marginal_probabilities = mp, circuit_depth = 2, circuit_size = 2 \<rparr>"

definition bell_statevector :: "(real \<times> real) list" where
  "bell_statevector = [(1 / sqrt 2, 0), (0, 0), (0, 0), (1 / sqrt 2, 0)]"

definition bell_marginals :: "marginal_entry list" where
  "bell_marginals =
     [\<lparr>qubit = 0, prob_0 = 0.5, prob_1 = 0.5\<rparr>, \<lparr>qubit = 1, prob_0 = 0.5, prob_1 = 0.5\<rparr>]"

definition ghz_statevector :: "(real \<times> real) list" where
  "ghz_statevector =
     [(1 / sqrt 2, 0), (0, 0), (0, 0), (0, 0), (0, 0), (0, 0), (0, 0), (1 / sqrt 2, 0)]"

definition ghz_marginals :: "marginal_entry list" where
  "ghz_marginals =
     [\<lparr>qubit = 0, prob_0 = 0.5, prob_1 = 0.5\<rparr>, \<lparr>qubit = 1, prob_0 = 0.5, prob_1 = 0.5\<rparr>,
      \<lparr>qubit = 2, prob_0 = 0.5, prob_1 = 0.5\<rparr>]"

definition superposition_statevector :: "(real \<times> real) list" where
  "superposition_statevector = [(1 / sqrt 2, 0), (1 / sqrt 2, 0)]"

definition superposition_marginals :: "marginal_entry list" where
  "superposition_marginals = [\<lparr>qubit = 0, prob_0 = 0.5, prob_1 = 0.5\<rparr>]"

definition x_gate_statevector :: "(real \<times> real) list" where
  "x_gate_statevector = [(0, 0), (1, 0)]"

definition x_gate_marginals :: "marginal_entry list" where
  "x_gate_marginals = [\<lparr>qubit = 0, prob_0 = 0, prob_1 = 1\<rparr>]"

text \<open>
  The default branch (lines 72 to 78): \<^verbatim>\<open>num_qubits = 2\<close> is assigned first, then the
  statevector \<^verbatim>\<open>[[1.0, 0.0]] + [[0.0, 0.0]] * (2**num_qubits - 1)\<close> and one marginal entry per
  \<^verbatim>\<open>i in range(num_qubits)\<close> are built from it.
\<close>

definition default_statevector :: "int \<Rightarrow> (real \<times> real) list" where
  "default_statevector n = (1, 0) # replicate (nat (2 ^ nat n - 1)) (0, 0)"

definition default_marginals :: "int \<Rightarrow> marginal_entry list" where
  "default_marginals n = map (\<lambda>i. \<lparr>qubit = int i, prob_0 = 1, prob_1 = 0\<rparr>) [0..<nat n]"

definition simulate_simple_circuit :: "string \<Rightarrow> int \<Rightarrow> sim_result" where
  "simulate_simple_circuit = (\<lambda>circuit_type num_qubits.
      if circuit_type = ''bell_state'' then
        (let num_qubits = 2 in assemble num_qubits bell_statevector bell_marginals)
      else if circuit_type = ''ghz_state'' then
        (let num_qubits = 3 in assemble num_qubits ghz_statevector ghz_marginals)
      else if circuit_type = ''superposition'' then
        (let num_qubits = 1 in
           assemble num_qubits superposition_statevector superposition_marginals)
      else if circuit_type = ''x_gate'' then
        (let num_qubits = 1 in assemble num_qubits x_gate_statevector x_gate_marginals)
      else
        (let num_qubits = 2 in
           assemble num_qubits (default_statevector num_qubits) (default_marginals num_qubits)))"

text \<open>
  The pattern matching of the \<^verbatim>\<open>/simulate\<close> route (lines 107 to 119) on the lower-cased
  text of the request.  Each test of the \<^verbatim>\<open>if\<close>/\<^verbatim>\<open>elif\<close> chain is a predicate of its own;
  the chain keeps the order of the source.
\<close>

definition is_ghz :: "string \<Rightarrow> bool" where
  "is_ghz q \<longleftrightarrow>
     isin ''ghz'' q \<or> (isin ''quantumcircuit(3)'' q \<and> isin ''cx(0, 2)'' q)"

definition is_bell_simple :: "string \<Rightarrow> bool" where
  "is_bell_simple q \<longleftrightarrow>
     isin ''bell'' q
     \<or> (isin ''quantumcircuit(2)'' q \<and> isin ''h(0)'' q \<and> isin ''cx(0, 1)'' q)"

definition is_superposition :: "string \<Rightarrow> bool" where
  "is_superposition q \<longleftrightarrow> isin ''h(0)'' q \<and> isin ''quantumcircuit(1)'' q"

definition is_x_gate :: "string \<Rightarrow> bool" where
  "is_x_gate q \<longleftrightarrow> isin ''x(0)'' q"

definition classify_simple :: "string \<Rightarrow> string" where
  "classify_simple code =
     (let qiskit_code = lower code in
      if is_ghz qiskit_code then ''ghz_state''
      else if is_bell_simple qiskit_code then ''bell_state''
      else if is_superposition qiskit_code then ''superposition''
      else if is_x_gate qiskit_code then ''x_gate''
      else ''default'')"

text \<open>
  The route calls \<^verbatim>\<open>simulate_simple_circuit\<close> with one argument, so \<^verbatim>\<open>num_qubits\<close> takes
  its default value 2.
\<close>

definition simulate_text_simple :: "string \<Rightarrow> sim_result" where
  "simulate_text_simple code = simulate_simple_circuit (classify_simple code) 2"

section \<open>The fallback simulator of \<^verbatim>\<open>quantum_backend_docker.py\<close>\<close>

definition assemble_docker ::
  "int \<Rightarrow> (real \<times> real) list \<Rightarrow> marginal_entry list \<Rightarrow> string \<Rightarrow> docker_result" where
  "assemble_docker n sv mp ct =
     \<lparr> success = True, statevector = sv, num_qubits = n,
       probabilities = map amp_prob sv,
       marginal_probabilities = mp, circuit_depth = 2, circuit_size = 2,
       simulation_type = ''simple'', circuit_type_name = Some ct \<rparr>"

definition is_bell_docker :: "string \<Rightarrow> bool" where
  "is_bell_docker q \<longleftrightarrow> isin ''bell'' q \<or> (isin ''h(0)'' q \<and> isin ''cx(0, 1)'' q)"

definition simulate_simple_circuit_docker :: "string \<Rightarrow> docker_result" where
  "simulate_simple_circuit_docker qiskit_code =
     (let qiskit_code_lower = lower qiskit_code in
      if is_bell_docker qiskit_code_lower
      then (let num_qubits = 2 in
              assemble_docker num_qubits bell_statevector bell_marginals ''bell_state'')
      else if is_ghz qiskit_code_lower
      then (let num_qubits = 3 in
              assemble_docker num_qubits ghz_statevector ghz_marginals ''ghz_state'')
      else if is_superposition qiskit_code_lower
      then (let num_qubits = 1 in
              assemble_docker num_qubits superposition_statevector superposition_marginals
                ''superposition'')
      else if is_x_gate qiskit_code_lower
      then (let num_qubits = 1 in
              assemble_docker num_qubits x_gate_statevector x_gate_marginals ''x_gate'')
      else (let num_qubits = 2 in
              assemble_docker num_qubits (default_statevector num_qubits)
                (default_marginals num_qubits) ''default''))"

section \<open>Reading the request\<close>

text \<open>
  The three \<^verbatim>\<open>/simulate\<close> routes start alike: \<^verbatim>\<open>if not data or 'qiskit_code' not in data\<close>
  answers 400, then \<^verbatim>\<open>data['qiskit_code']\<close> is read.  \<open>truthy\<close> is Python's truth value
  of a parsed JSON value, \<open>has_qiskit_code\<close> the \<^verbatim>\<open>in\<close> test (membership of a key for a
  dict, of an element for a list, substring for a string, a \<^verbatim>\<open>TypeError\<close> otherwise) and
  \<open>get_qiskit_code\<close> the subscript.
\<close>

fun truthy :: "json \<Rightarrow> bool" where
  "truthy JNull = False"
| "truthy (JBool b) = b"
| "truthy (JNum x) = (x \<noteq> 0)"
| "truthy (JStr s) = (s \<noteq> [])"
| "truthy (JArr xs) = (xs \<noteq> [])"
| "truthy (JObj kvs) = (kvs \<noteq> [])"

fun has_qiskit_code :: "json \<Rightarrow> 'x exn + bool" where
  "has_qiskit_code (JObj kvs) = Inr (''qiskit_code'' \<in> set (map fst kvs))"
| "has_qiskit_code (JArr xs) = Inr (JStr ''qiskit_code'' \<in> set xs)"
| "has_qiskit_code (JStr s) = Inr (isin ''qiskit_code'' s)"
| "has_qiskit_code _ = Inl TypeError"

fun get_qiskit_code :: "json \<Rightarrow> 'x exn + json" where
  "get_qiskit_code (JObj kvs) =
     (case map_of kvs ''qiskit_code'' of None \<Rightarrow> Inl KeyError | Some v \<Rightarrow> Inr v)"
| "get_qiskit_code _ = Inl TypeError"

text \<open>
  The \<^verbatim>\<open>except Exception\<close> branch of every route answers with status 500.  It catches
  the exceptions whose class derives from \<^verbatim>\<open>Exception\<close>; any other leaves the route.
\<close>

definition server_error :: "'x exn \<Rightarrow> 'x failure" where
  "server_error e = \<lparr> status = 500, error = Simulation_error e \<rparr>"

definition except_exception :: "'x exn \<Rightarrow> ('x, 'r) response" where
  "except_exception e = (if is_exception e then Failed (server_error e) else Propagated e)"

definition missing_parameter :: "'x failure" where
  "missing_parameter = \<lparr> status = 400, error = Missing_qiskit_code \<rparr>"

text \<open>
  The common prefix of the routes, up to and including \<^verbatim>\<open>data['qiskit_code']\<close>.  The request
  is \<open>Inl e\<close> when \<^verbatim>\<open>request.get_json()\<close> raises \<open>e\<close>.
\<close>

definition read_code :: "'x exn + json \<Rightarrow> ('x, json) response" where
  "read_code request =
     (case request of
        Inl e \<Rightarrow> except_exception e
      | Inr data \<Rightarrow>
          if \<not> truthy data then Failed missing_parameter
          else (case has_qiskit_code data of
                  Inl e \<Rightarrow> except_exception e
                | Inr False \<Rightarrow> Failed missing_parameter
                | Inr True \<Rightarrow>
                    (case get_qiskit_code data of
                       Inl e \<Rightarrow> except_exception e
                     | Inr v \<Rightarrow> Answered v)))"

section \<open>The \<^verbatim>\<open>/simulate\<close> route of \<^verbatim>\<open>quantum_backend_simple.py\<close>\<close>

text \<open>
  \<^verbatim>\<open>data['qiskit_code'].lower()\<close> raises \<^verbatim>\<open>AttributeError\<close> unless the value is a string.
\<close>

definition simulate_quantum_circuit_simple :: "'x exn + json \<Rightarrow> ('x, sim_result) response" where
  "simulate_quantum_circuit_simple request =
     (case read_code request of
        Propagated e \<Rightarrow> Propagated e
      | Failed f \<Rightarrow> Failed f
      | Answered (JStr code) \<Rightarrow> Answered (simulate_text_simple code)
      | Answered _ \<Rightarrow> except_exception AttributeError)"

section \<open>The analytics of \<^verbatim>\<open>quantum_backend.py\<close> and \<^verbatim>\<open>simulate_with_qiskit\<close>\<close>

unbundle bit_operations_syntax

text \<open>
  Lines 75 to 100 of \<^verbatim>\<open>quantum_backend.py\<close> (67 to 92 of \<^verbatim>\<open>quantum_backend_docker.py\<close>) work
  on \<^verbatim>\<open>final_state.data\<close>, a sequence of complex amplitudes.
\<close>

definition statevector_data :: "complex list \<Rightarrow> (real \<times> real) list" where
  "statevector_data final_state = map (\<lambda>amplitude. (Re amplitude, Im amplitude)) final_state"

definition basis_probabilities :: "complex list \<Rightarrow> real list" where
  "basis_probabilities final_state = map (\<lambda>amplitude. (cmod amplitude)\<^sup>2) final_state"

text \<open>
  The inner loop over \<^verbatim>\<open>state_idx in range(2**num_qubits)\<close> with its two accumulators; the
  test is \<^verbatim>\<open>(state_idx >> qubit_idx) & 1 == 0\<close>.  Reading \<^verbatim>\<open>probabilities[state_idx]\<close>
  beyond the end of the list raises \<^verbatim>\<open>IndexError\<close>.
\<close>

fun marginal_loop :: "real list \<Rightarrow> nat \<Rightarrow> nat list \<Rightarrow> real \<times> real \<Rightarrow> 'x exn + real \<times> real" where
  "marginal_loop ps qubit_idx [] acc = Inr acc"
| "marginal_loop ps qubit_idx (state_idx # rest) (p0, p1) =
     (if state_idx < length ps then
        (if (drop_bit qubit_idx state_idx) AND 1 = 0
         then marginal_loop ps qubit_idx rest (p0 + ps ! state_idx, p1)
         else marginal_loop ps qubit_idx rest (p0, p1 + ps ! state_idx))
      else Inl IndexError)"

text \<open>The outer loop over \<^verbatim>\<open>qubit_idx in range(num_qubits)\<close>, appending one entry each.\<close>

fun marginals_loop :: "real list \<Rightarrow> nat \<Rightarrow> nat list \<Rightarrow> 'x exn + marginal_entry list" where
  "marginals_loop ps n [] = Inr []"
| "marginals_loop ps n (qubit_idx # rest) =
     (case marginal_loop ps qubit_idx [0..<2 ^ n] (0, 0) of
        Inl e \<Rightarrow> Inl e
      | Inr (p0, p1) \<Rightarrow>
          (case marginals_loop ps n rest of
             Inl e \<Rightarrow> Inl e
           | Inr ms \<Rightarrow> Inr (\<lparr>qubit = int qubit_idx, prob_0 = p0, prob_1 = p1\<rparr> # ms)))"

definition marginals :: "real list \<Rightarrow> nat \<Rightarrow> 'x exn + marginal_entry list" where
  "marginals ps n = marginals_loop ps n [0..<n]"

section \<open>The \<^verbatim>\<open>/simulate\<close> route of \<^verbatim>\<open>quantum_backend.py\<close>\<close>

text \<open>
  Qiskit is not part of the repository.  What the route asks of it is a parameter:
  \<^item> \<open>exec_code\<close>: \<^verbatim>\<open>exec(qiskit_code, safe_globals, safe_locals)\<close>; it raises (an
    exception of any class, also one that does not derive from \<^verbatim>\<open>Exception\<close>), or leaves
    the local variables of the script, each a circuit or some other value;
  \<^item> \<open>circ_num_qubits\<close>, \<open>circ_depth\<close>, \<open>circ_size\<close>: \<^verbatim>\<open>circuit.num_qubits\<close>,
    \<^verbatim>\<open>circuit.depth()\<close>, \<^verbatim>\<open>circuit.size()\<close>;
  \<^item> \<open>evolve\<close>: \<^verbatim>\<open>Statevector.from_int(0, 2**num_qubits).evolve(circuit).data\<close>, or the
    exception it raises.
\<close>

datatype 'c pyvalue = QuantumCircuit 'c | Other

record ('c, 'x) qiskit =
  exec_code :: "string \<Rightarrow> 'x exn + (string \<times> 'c pyvalue) list"
  circ_num_qubits :: "'c \<Rightarrow> nat"
  evolve :: "'c \<Rightarrow> 'x exn + complex list"
  circ_depth :: "'c \<Rightarrow> int"
  circ_size :: "'c \<Rightarrow> int"

text \<open>The search for the first circuit among the local variables (lines 56 to 60).\<close>

fun find_circuit :: "(string \<times> 'c pyvalue) list \<Rightarrow> 'c option" where
  "find_circuit [] = None"
| "find_circuit ((var_name, QuantumCircuit c) # rest) = Some c"
| "find_circuit ((var_name, Other) # rest) = find_circuit rest"

text \<open>Lines 68 to 110: simulation, analytics and the response, for a circuit that was found.\<close>

definition analyse :: "('c, 'x) qiskit \<Rightarrow> 'c \<Rightarrow> 'x exn + sim_result" where
  "analyse qk circuit =
     (let n = circ_num_qubits qk circuit in
      case evolve qk circuit of
        Inl e \<Rightarrow> Inl e
      | Inr final_state \<Rightarrow>
          (case marginals (basis_probabilities final_state) n of
             Inl e \<Rightarrow> Inl e
           | Inr mp \<Rightarrow>
               Inr \<lparr> success = True, statevector = statevector_data final_state,
                     num_qubits = int n,
                     probabilities = basis_probabilities final_state,
                     marginal_probabilities = mp,
                     circuit_depth = circ_depth qk circuit,
                     circuit_size = circ_size qk circuit \<rparr>))"

text \<open>\<^verbatim>\<open>exec\<close> of a value that is not a string raises \<^verbatim>\<open>TypeError\<close>.\<close>

definition run_code :: "('c, 'x) qiskit \<Rightarrow> json \<Rightarrow> 'x exn + 'c option" where
  "run_code qk v =
     (case v of
        JStr code \<Rightarrow>
          (case exec_code qk code of Inl e \<Rightarrow> Inl e | Inr locals \<Rightarrow> Inr (find_circuit locals))
      | _ \<Rightarrow> Inl TypeError)"

definition simulate_quantum_circuit ::
  "('c, 'x) qiskit \<Rightarrow> 'x exn + json \<Rightarrow> ('x, sim_result) response" where
  "simulate_quantum_circuit qk request =
     (case read_code request of
        Propagated e \<Rightarrow> Propagated e
      | Failed f \<Rightarrow> Failed f
      | Answered v \<Rightarrow>
          (case run_code qk v of
             Inl e \<Rightarrow> except_exception e
           | Inr None \<Rightarrow> Failed \<lparr> status = 400, error = No_circuit_found \<rparr>
           | Inr (Some circuit) \<Rightarrow>
               (case analyse qk circuit of
                  Inl e \<Rightarrow> except_exception e
                | Inr r \<Rightarrow> Answered r)))"

section \<open>The \<^verbatim>\<open>/simulate\<close> route of \<^verbatim>\<open>quantum_backend_docker.py\<close>\<close>

text \<open>
  \<^verbatim>\<open>simulate_with_qiskit\<close> raises \<^verbatim>\<open>ValueError\<close> when no circuit is found and lets every other
  exception through; its result carries \<^verbatim>\<open>simulation_type = 'qiskit'\<close>.
\<close>

definition simulate_with_qiskit :: "('c, 'x) qiskit \<Rightarrow> json \<Rightarrow> 'x exn + docker_result" where
  "simulate_with_qiskit qk v =
     (case run_code qk v of
        Inl e \<Rightarrow> Inl e
      | Inr None \<Rightarrow> Inl (ValueError ''No QuantumCircuit found in the provided code'')
      | Inr (Some circuit) \<Rightarrow>
          (case analyse qk circuit of
             Inl e \<Rightarrow> Inl e
           | Inr r \<Rightarrow>
               Inr (sim_result.extend r
                      \<lparr> simulation_type = ''qiskit'', circuit_type_name = None \<rparr>)))"

text \<open>
  The route logs \<^verbatim>\<open>qiskit_code[:100]\<close> first, which raises \<^verbatim>\<open>TypeError\<close> unless the value is
  a string or a list.  With \<^verbatim>\<open>QISKIT_AVAILABLE\<close> it calls \<^verbatim>\<open>simulate_with_qiskit\<close>, otherwise
  the fallback, whose \<^verbatim>\<open>qiskit_code.lower()\<close> raises \<^verbatim>\<open>AttributeError\<close> on a list.
\<close>

definition simulate_quantum_circuit_docker ::
  "bool \<Rightarrow> ('c, 'x) qiskit \<Rightarrow> 'x exn + json \<Rightarrow> ('x, docker_result) response" where
  "simulate_quantum_circuit_docker qiskit_available qk request =
     (case read_code request of
        Propagated e \<Rightarrow> Propagated e
      | Failed f \<Rightarrow> Failed f
      | Answered v \<Rightarrow>
          (case v of
             JStr code \<Rightarrow>
               if qiskit_available then
                 (case simulate_with_qiskit qk v of
                    Inl e \<Rightarrow> except_exception e
                  | Inr r \<Rightarrow> Answered r)
               else Answered (simulate_simple_circuit_docker code)
           | JArr xs \<Rightarrow>
               if qiskit_available then except_exception TypeError
               else except_exception AttributeError
           | _ \<Rightarrow> except_exception TypeError))"

section \<open>The circuit model and the statevector engine\<close>

text \<open>
  Modelled from the spec: the Gate Catalog, the Circuit Model, the Statevector Engine and
  the circuit metrics (sections 3 and 4.1 to 4.4).  In the repository this work is done by
  Qiskit (\<^verbatim>\<open>QuantumCircuit\<close>, \<^verbatim>\<open>Statevector.evolve\<close>, \<^verbatim>\<open>circuit.depth()\<close>,
  \<^verbatim>\<open>circuit.size()\<close>), whose code is not among the sources; the definitions of this section
  follow the words of the spec.
\<close>

text \<open>
  Modelled from the spec: a 2 by 2 complex matrix \<open>(u00, u01, u10, u11)\<close> and the named
  single-qubit gates, H the normalised Hadamard matrix and X, Y, Z the Pauli matrices.
\<close>

type_synonym mat2 = "complex \<times> complex \<times> complex \<times> complex"

datatype unitary = Hadamard | PauliX | PauliY | PauliZ | Unitary mat2

fun matrix_of :: "unitary \<Rightarrow> mat2" where
  "matrix_of Hadamard = (1 / sqrt 2, 1 / sqrt 2, 1 / sqrt 2, - (1 / sqrt 2))"
| "matrix_of PauliX = (0, 1, 1, 0)"
| "matrix_of PauliY = (0, - \<i>, \<i>, 0)"
| "matrix_of PauliZ = (1, 0, 0, - 1)"
| "matrix_of (Unitary m) = m"

text \<open>
  Modelled from the spec: a gate operation is a single-qubit unitary on a target, a
  controlled single-qubit unitary (control, target), a controlled phase with its angle
  (control, target), or a SWAP of two qubits.
\<close>

datatype gate =
  Single unitary nat
| Controlled unitary nat nat
| CPhase real nat nat
| Swap nat nat

fun gate_qubits :: "gate \<Rightarrow> nat list" where
  "gate_qubits (Single u q) = [q]"
| "gate_qubits (Controlled u c t) = [c, t]"
| "gate_qubits (CPhase \<theta> c t) = [c, t]"
| "gate_qubits (Swap a b) = [a, b]"

record circuit =
  qubit_count :: nat
  operations :: "gate list"

text \<open>
  Modelled from the spec: \<^verbatim>\<open>validate(n, operations)\<close> of section 4.2.  It checks that n is
  within 1 and the configured maximum, that every qubit index of every operation is below
  n, that control and target of a controlled gate differ, and that the operation list is
  not longer than the configured maximum; a failure names the operation (by position) and
  the violated constraint.
\<close>

record config =
  max_qubits :: nat
  max_operations :: nat

datatype validation_error =
  Qubit_count_out_of_bounds
| Index_out_of_range nat
| Control_equals_target nat
| Too_many_operations

fun check_gate :: "nat \<Rightarrow> nat \<Rightarrow> gate \<Rightarrow> validation_error option" where
  "check_gate n k (Single u q) = (if n \<le> q then Some (Index_out_of_range k) else None)"
| "check_gate n k (Controlled u c t) =
     (if n \<le> c \<or> n \<le> t then Some (Index_out_of_range k)
      else if c = t then Some (Control_equals_target k) else None)"
| "check_gate n k (CPhase \<theta> c t) =
     (if n \<le> c \<or> n \<le> t then Some (Index_out_of_range k)
      else if c = t then Some (Control_equals_target k) else None)"
| "check_gate n k (Swap a b) =
     (if n \<le> a \<or> n \<le> b then Some (Index_out_of_range k) else None)"

fun check_gates :: "nat \<Rightarrow> nat \<Rightarrow> gate list \<Rightarrow> validation_error option" where
  "check_gates n k [] = None"
| "check_gates n k (g # gs) =
     (case check_gate n k g of Some e \<Rightarrow> Some e | None \<Rightarrow> check_gates n (Suc k) gs)"

definition validate :: "config \<Rightarrow> nat \<Rightarrow> gate list \<Rightarrow> validation_error + circuit" where
  "validate cfg n ops =
     (if n < 1 \<or> max_qubits cfg < n then Inl Qubit_count_out_of_bounds
      else case check_gates n 0 ops of
             Some e \<Rightarrow> Inl e
           | None \<Rightarrow>
               if max_operations cfg < length ops then Inl Too_many_operations
               else Inr \<lparr> qubit_count = n, operations = ops \<rparr>)"

text \<open>
  Modelled from the spec: the ground state of section 4.3, \<open>2 ^ n\<close> amplitudes with
  amplitude 0 equal to 1 and all others 0.
\<close>

definition ground_state :: "nat \<Rightarrow> complex list" where
  "ground_state n = 1 # replicate (2 ^ n - 1) 0"

text \<open>
  Modelled from the spec: the action of each gate kind (section 4.1), with bit \<open>q\<close> of a
  basis index standing for qubit \<open>q\<close>.  A single-qubit unitary on \<open>q\<close> transforms each pair
  of amplitudes at indices \<open>i\<close> and \<open>i + 2 ^ q\<close> (bit \<open>q\<close> of \<open>i\<close> clear) by the matrix; a
  controlled unitary does so only where the control bit is set; a controlled phase
  multiplies the amplitudes with both bits set by \<open>e\<^sup>i\<^sup>\<theta>\<close>; SWAP moves each amplitude to the
  index with the two bits exchanged.  \<open>new_amplitude\<close> is the amplitude at index \<open>i\<close> after
  the matrix has been applied on qubit \<open>q\<close>.
\<close>

fun new_amplitude :: "mat2 \<Rightarrow> nat \<Rightarrow> complex list \<Rightarrow> nat \<Rightarrow> complex" where
  "new_amplitude (u00, u01, u10, u11) q psi i =
     (if bit i q then u10 * psi ! (i - 2 ^ q) + u11 * psi ! i
      else u00 * psi ! i + u01 * psi ! (i + 2 ^ q))"

definition swap_bits :: "nat \<Rightarrow> nat \<Rightarrow> nat \<Rightarrow> nat" where
  "swap_bits a b i = (if bit i a = bit i b then i else flip_bit a (flip_bit b i))"

fun apply_gate :: "gate \<Rightarrow> complex list \<Rightarrow> complex list" where
  "apply_gate (Single u q) psi = map (new_amplitude (matrix_of u) q psi) [0..<length psi]"
| "apply_gate (Controlled u c t) psi =
     map (\<lambda>i. if bit i c then new_amplitude (matrix_of u) t psi i else psi ! i)
       [0..<length psi]"
| "apply_gate (CPhase \<theta> c t) psi =
     map (\<lambda>i. if bit i c \<and> bit i t then cis \<theta> * psi ! i else psi ! i) [0..<length psi]"
| "apply_gate (Swap a b) psi = map (\<lambda>i. psi ! swap_bits a b i) [0..<length psi]"

text \<open>
  Modelled from the spec: \<^verbatim>\<open>simulate(circuit)\<close> applies the operations in order to the
  ground state.
\<close>

definition simulate :: "circuit \<Rightarrow> complex list" where
  "simulate c = fold apply_gate (operations c) (ground_state (qubit_count c))"

text \<open>
  Modelled from the spec: \<^verbatim>\<open>metrics(circuit)\<close> of section 4.4.  The size is the operation
  count.  For the depth, a level is kept per qubit; an operation takes the maximum level
  among its qubits plus one and records it for all the qubits it touches; the depth is the
  largest level at the end.
\<close>

definition schedule_gate :: "gate \<Rightarrow> nat list \<Rightarrow> nat list" where
  "schedule_gate g levels =
     (let d = fold max (map (\<lambda>q. levels ! q) (gate_qubits g)) 0 + 1
      in fold (\<lambda>q ls. ls[q := d]) (gate_qubits g) levels)"

definition metrics_depth :: "circuit \<Rightarrow> nat" where
  "metrics_depth c =
     fold max (fold schedule_gate (operations c) (replicate (qubit_count c) 0)) 0"

definition metrics_size :: "circuit \<Rightarrow> nat" where
  "metrics_size c = length (operations c)"

text \<open>
  Modelled from the spec: the usual circuit depth of section 4.4, the length of the longest
  chain of dependent operations.  Two operations depend on each other when they touch a
  common qubit; a chain is a selection of operations, in the order of the circuit, in which
  every operation shares a qubit with the one selected before it.
\<close>

definition shares_qubit :: "gate \<Rightarrow> gate \<Rightarrow> bool" where
  "shares_qubit g h \<longleftrightarrow> list_ex (\<lambda>q. q \<in> set (gate_qubits h)) (gate_qubits g)"

definition dependency_chain :: "gate list \<Rightarrow> gate list \<Rightarrow> bool" where
  "dependency_chain ops ch \<longleftrightarrow> subseq ch ops \<and> successively shares_qubit ch"

text \<open>
  Modelled from the spec: a gate is unitary (section 3: operations are unitary by
  construction, so the sum of the squared magnitudes stays 1).  For a 2 by 2 matrix the
  columns are orthonormal; a controlled phase and a SWAP are unitary as they are.
  \<open>norm2\<close> is the sum of the squared magnitudes of a statevector.
\<close>

definition is_unitary :: "mat2 \<Rightarrow> bool" where
  "is_unitary m = (case m of (u00, u01, u10, u11) \<Rightarrow>
     cnj u00 * u00 + cnj u10 * u10 = 1 \<and> cnj u01 * u01 + cnj u11 * u11 = 1
     \<and> cnj u00 * u01 + cnj u10 * u11 = 0)"

fun unitary_gate :: "gate \<Rightarrow> bool" where
  "unitary_gate (Single u q) = is_unitary (matrix_of u)"
| "unitary_gate (Controlled u c t) = is_unitary (matrix_of u)"
| "unitary_gate (CPhase \<theta> c t) = True"
| "unitary_gate (Swap a b) = True"

definition norm2 :: "complex list \<Rightarrow> real" where
  "norm2 psi = (\<Sum>a\<leftarrow>psi. (cmod a)\<^sup>2)"

text \<open>
  Modelled from the spec: the engine in the place of Qiskit.  A script is read by \<open>parse\<close>
  (the meaning of the Python text, a parameter) as a qubit count and a list of gate
  operations; building the circuit validates it and raises the validation error; the
  circuit is bound to one local variable.
\<close>

definition engine ::
  "config \<Rightarrow> (string \<Rightarrow> nat \<times> gate list) \<Rightarrow> (circuit, validation_error) qiskit" where
  "engine cfg parse =
     \<lparr> exec_code = (\<lambda>code.
         case validate cfg (fst (parse code)) (snd (parse code)) of
           Inl e \<Rightarrow> Inl (External e)
         | Inr c \<Rightarrow> Inr [(''circ'', QuantumCircuit c)]),
       circ_num_qubits = qubit_count,
       evolve = (\<lambda>c. Inr (simulate c)),
       circ_depth = (\<lambda>c. int (metrics_depth c)),
       circ_size = (\<lambda>c. int (metrics_size c)) \<rparr>"

text \<open>
  Modelled from the spec: the two ways a gate operation can be ill-formed for a circuit of
  \<open>n\<close> qubits (sections 3 and 4.2): it references a qubit index that is not below \<open>n\<close>, or
  it is a controlled gate whose control and target are the same qubit.
\<close>

definition out_of_range :: "nat \<Rightarrow> gate \<Rightarrow> bool" where
  "out_of_range n g \<longleftrightarrow> (\<exists>q\<in>set (gate_qubits g). n \<le> q)"

fun control_is_target :: "gate \<Rightarrow> bool" where
  "control_is_target (Controlled u c t) = (c = t)"
| "control_is_target (CPhase \<theta> c t) = (c = t)"
| "control_is_target _ = False"

definition ill_formed :: "nat \<Rightarrow> gate \<Rightarrow> bool" where
  "ill_formed n g \<longleftrightarrow> out_of_range n g \<or> control_is_target g"

section \<open>Example inputs\<close>

text \<open>
  The example circuits the back ends publish under \<^verbatim>\<open>/example_circuits\<close>, and three further
  scripts in the same notation.  A line break is the character 10.
\<close>

definition nl :: string where
  "nl = [CHR 0x0A]"

definition bell_example :: string where
  "bell_example =
     ''# Bell State (Entanglement)'' @ nl @ ''circ = QuantumCircuit(2)'' @ nl @ ''circ.h(0)''
     @ nl @ ''circ.cx(0, 1)''"

definition ghz_example :: string where
  "ghz_example =
     ''# GHZ State (3-qubit entanglement)'' @ nl @ ''circ = QuantumCircuit(3)'' @ nl
     @ ''circ.h(0)'' @ nl @ ''circ.cx(0, 1)'' @ nl @ ''circ.cx(0, 2)''"

definition superposition_example :: string where
  "superposition_example =
     ''# Single qubit superposition'' @ nl @ ''circ = QuantumCircuit(1)'' @ nl @ ''circ.h(0)''"

definition x_gate_example :: string where
  "x_gate_example =
     ''# Simple X gate (bit flip)'' @ nl @ ''circ = QuantumCircuit(1)'' @ nl @ ''circ.x(0)''"

text \<open>
  The circuits these scripts describe, as gate lists: H on qubit 0 and CX with control 0,
  target 1 (Bell); the same followed by CX with control 0, target 2 (GHZ); a single Y; no
  operation on three qubits; H on qubits 0 and 1 followed by CX on both.
\<close>

definition bell_circuit :: circuit where
  "bell_circuit = \<lparr> qubit_count = 2, operations = [Single Hadamard 0, Controlled PauliX 0 1] \<rparr>"

definition ghz_circuit :: circuit where
  "ghz_circuit =
     \<lparr> qubit_count = 3,
       operations = [Single Hadamard 0, Controlled PauliX 0 1, Controlled PauliX 0 2] \<rparr>"

definition y_gate_circuit :: circuit where
  "y_gate_circuit = \<lparr> qubit_count = 1, operations = [Single PauliY 0] \<rparr>"

definition hh_cx_circuit :: circuit where
  "hh_cx_circuit =
     \<lparr> qubit_count = 2,
       operations = [Single Hadamard 0, Single Hadamard 1, Controlled PauliX 0 1] \<rparr>"

definition y_gate_code :: string where
  "y_gate_code = ''circ = QuantumCircuit(1)'' @ nl @ ''circ.y(0)''"

definition empty_3_code :: string where
  "empty_3_code = ''circ = QuantumCircuit(3)''"

definition hh_cx_code :: string where
  "hh_cx_code =
     ''circ = QuantumCircuit(2)'' @ nl @ ''circ.h(0)'' @ nl @ ''circ.h(1)'' @ nl
     @ ''circ.cx(0, 1)''"


text \<open>The body \<^verbatim>\<open>{"qiskit_code": code}\<close> that the test scripts post to \<^verbatim>\<open>/simulate\<close>.\<close>

definition post_code :: "string \<Rightarrow> 'x exn + json" where
  "post_code code = Inr (JObj [(''qiskit_code'', JStr code)])"

text \<open>
  A configuration with the default maximum of 24 qubits, a gate list whose second
  operation has its control equal to its target, a stand-in for Qiskit whose script raises
  \<^verbatim>\<open>SystemExit\<close>, a request body \<^verbatim>\<open>{"other": 1}\<close> without the key, and a stand-in for
  Qiskit whose script builds a circuit and whose evolution raises.
\<close>

definition example_config :: config where
  "example_config = \<lparr> max_qubits = 24, max_operations = 1000 \<rparr>"

definition bad_circuit_ops :: "gate list" where
  "bad_circuit_ops = [Single Hadamard 0, Controlled PauliX 1 1]"




section \<open>Basic facts\<close>

lemma isin_iff_sublist: "isin p s \<longleftrightarrow> sublist p s"
  by (induction s) (auto simp: sublist_Cons_right)

lemma default_statevector_2: "default_statevector 2 = [(1, 0), (0, 0), (0, 0), (0, 0)]"
  by (simp add: default_statevector_def numeral_eq_Suc)

lemma default_marginals_2:
  "default_marginals 2 =
     [\<lparr>qubit = 0, prob_0 = 1, prob_1 = 0\<rparr>, \<lparr>qubit = 1, prob_0 = 1, prob_1 = 0\<rparr>]"
  by (simp add: default_marginals_def upt_rec)

subsection \<open>Bits of a basis index\<close>

text \<open>
  The test \<^verbatim>\<open>(state_idx >> qubit_idx) & 1 == 0\<close> reads bit \<open>qubit_idx\<close> of the index; bit 0
  is the least significant one.
\<close>

lemma shift_and_one_iff: "(drop_bit q (i::nat)) AND 1 = 0 \<longleftrightarrow> \<not> bit i q"
  by (simp add: and_one_eq bit_iff_odd_drop_bit even_iff_mod_2_eq_zero)

lemma shift_mod_2_iff:
  "drop_bit q (i::nat) mod 2 = 0 \<longleftrightarrow> \<not> bit i q"
  "drop_bit q (i::nat) mod 2 = Suc 0 \<longleftrightarrow> bit i q"
  by (simp_all add: bit_iff_odd_drop_bit even_iff_mod_2_eq_zero odd_iff_mod_2_eq_one)

lemma bit_two: "bit (a::nat) 2 = bit a (Suc (Suc 0))"
  by (simp add: numeral_2_eq_2)

lemmas bit_eval = bit_0 bit_Suc bit_two

subsection \<open>The marginal loops as sums\<close>

lemma marginal_loop_sum:
  "\<forall>i\<in>set idxs. i < length ps \<Longrightarrow>
   marginal_loop ps q idxs (p0, p1) =
     Inr (p0 + (\<Sum>i\<leftarrow>idxs. if bit i q then 0 else ps ! i),
          p1 + (\<Sum>i\<leftarrow>idxs. if bit i q then ps ! i else 0))"
proof (induction idxs arbitrary: p0 p1)
  case Nil
  then show ?case by simp
next
  case (Cons i idxs)
  then show ?case by (simp add: shift_mod_2_iff add.assoc)
qed

lemma sum_list_upt_filter:
  "(\<Sum>i\<leftarrow>[0..<N]. if P i then f i else (0::real)) = (\<Sum>i | i < N \<and> P i. f i)"
proof -
  have "(\<Sum>i\<leftarrow>[0..<N]. if P i then f i else 0) = (\<Sum>i\<in>{0..<N}. if P i then f i else 0)"
    by (simp add: interv_sum_list_conv_sum_set_nat)
  also have "\<dots> = (\<Sum>i\<in>{0..<N} \<inter> {i. P i}. f i)"
    by (simp add: sum.inter_restrict)
  also have "{0..<N} \<inter> {i. P i} = {i. i < N \<and> P i}"
    by auto
  finally show ?thesis .
qed

lemma marginal_loop_range:
  assumes "length ps = 2 ^ n"
  shows "marginal_loop ps q [0..<2 ^ n] (0, 0) =
     Inr (\<Sum>i | i < 2 ^ n \<and> \<not> bit i q. ps ! i, \<Sum>i | i < 2 ^ n \<and> bit i q. ps ! i)"
proof -
  have a: "(\<Sum>i\<leftarrow>[0..<2 ^ n]. if bit i q then 0 else ps ! i)
             = (\<Sum>i | i < 2 ^ n \<and> \<not> bit i q. ps ! i)"
  proof -
    have "(\<lambda>i. if bit i q then 0 else ps ! i) = (\<lambda>i. if \<not> bit i q then ps ! i else 0)"
      by auto
    then show ?thesis
      using sum_list_upt_filter
        [where N = "2 ^ n" and P = "\<lambda>i. \<not> bit i q" and f = "\<lambda>i. ps ! i"]
      by simp
  qed
  have b: "(\<Sum>i\<leftarrow>[0..<2 ^ n]. if bit i q then ps ! i else 0)
             = (\<Sum>i | i < 2 ^ n \<and> bit i q. ps ! i)"
    by (rule sum_list_upt_filter)
  have "\<forall>i\<in>set [0..<2 ^ n]. i < length ps"
    using assms by simp
  from marginal_loop_sum [OF this, of q 0 0] a b show ?thesis by simp
qed

lemma sum_split_by_predicate:
  "(\<Sum>i | i < N \<and> \<not> P i. f i) + (\<Sum>i | i < N \<and> P i. f i) = (\<Sum>i<(N::nat). (f i :: real))"
proof -
  have fin: "finite {i. i < N \<and> Q i}" for Q
    by (rule finite_subset [of _ "{..<N}"]) auto
  have "(\<Sum>i<N. f i) = (\<Sum>i\<in>{i. i < N \<and> \<not> P i} \<union> {i. i < N \<and> P i}. f i)"
    by (rule sum.cong) auto
  also have "\<dots> = (\<Sum>i | i < N \<and> \<not> P i. f i) + (\<Sum>i | i < N \<and> P i. f i)"
    by (rule sum.union_disjoint) (auto simp: fin)
  finally show ?thesis by simp
qed

lemma marginals_loop_sums:
  assumes "length ps = 2 ^ n"
  shows "marginals_loop ps n qs =
     Inr (map (\<lambda>q. \<lparr>qubit = int q,
                    prob_0 = (\<Sum>i | i < 2 ^ n \<and> \<not> bit i q. ps ! i),
                    prob_1 = (\<Sum>i | i < 2 ^ n \<and> bit i q. ps ! i)\<rparr>) qs)"
  by (induction qs) (simp_all add: marginal_loop_range [OF assms])

lemma sum_list_as_sum_nth: "sum_list (ps::real list) = (\<Sum>i<length ps. ps ! i)"
  by (simp add: sum_list_sum_nth atLeast0LessThan)

lemma basis_probabilities_nth:
  "i < length fs \<Longrightarrow> basis_probabilities fs ! i = (cmod (fs ! i))\<^sup>2"
  by (simp add: basis_probabilities_def)

lemma basis_probabilities_length: "length (basis_probabilities fs) = length fs"
  by (simp add: basis_probabilities_def)

subsection \<open>Reading a posted script\<close>

lemma read_code_post_code: "read_code (post_code code) = Answered (JStr code)"
  by (simp add: read_code_def post_code_def)

lemma simple_route_post_code:
  "simulate_quantum_circuit_simple (post_code code) = Answered (simulate_text_simple code)"
  by (simp add: simulate_quantum_circuit_simple_def read_code_post_code)

lemma docker_route_fallback_post_code:
  "simulate_quantum_circuit_docker False qk (post_code code)
     = Answered (simulate_simple_circuit_docker code)"
  by (simp add: simulate_quantum_circuit_docker_def read_code_post_code)

subsection \<open>The example scripts through the classifiers\<close>

lemma classify_simple_examples:
  "classify_simple bell_example = ''bell_state''"
  "classify_simple ghz_example = ''ghz_state''"
  "classify_simple superposition_example = ''superposition''"
  "classify_simple x_gate_example = ''x_gate''"
  "classify_simple y_gate_code = ''default''"
  "classify_simple empty_3_code = ''default''"
  "classify_simple hh_cx_code = ''bell_state''"
  by code_simp+

lemma docker_patterns_bell_example: "is_bell_docker (lower bell_example)"
  by code_simp

lemma docker_patterns_ghz_example: "is_bell_docker (lower ghz_example)"
  by code_simp

lemma table_probabilities:
  "map amp_prob bell_statevector = [1 / 2, 0, 0, 1 / 2]"
  "map amp_prob ghz_statevector = [1 / 2, 0, 0, 0, 0, 0, 0, 1 / 2]"
  "map amp_prob superposition_statevector = [1 / 2, 1 / 2]"
  "map amp_prob x_gate_statevector = [0, 1]"
  "map amp_prob (default_statevector 2) = [1, 0, 0, 0]"
  by (simp_all add: bell_statevector_def ghz_statevector_def superposition_statevector_def
      x_gate_statevector_def default_statevector_2 amp_prob_def power_divide)

subsection \<open>The engine on the example circuits\<close>

lemma ground_state_small:
  "ground_state 1 = [1, 0]" "ground_state 2 = [1, 0, 0, 0]"
  "ground_state 3 = [1, 0, 0, 0, 0, 0, 0, 0]"
  by (simp_all add: ground_state_def numeral_eq_Suc)

lemma engine_simps:
  "circ_num_qubits (engine cfg parse) c = qubit_count c"
  "evolve (engine cfg parse) c = Inr (simulate c)"
  "circ_depth (engine cfg parse) c = int (metrics_depth c)"
  "circ_size (engine cfg parse) c = int (metrics_size c)"
  "exec_code (engine cfg parse) code =
     (case validate cfg (fst (parse code)) (snd (parse code)) of
        Inl e \<Rightarrow> Inl (External e)
      | Inr c \<Rightarrow> Inr [(''circ'', QuantumCircuit c)])"
  by (simp_all add: engine_def)

lemma simulate_bell_circuit: "simulate bell_circuit = [1 / sqrt 2, 0, 0, 1 / sqrt 2]"
  by (simp add: simulate_def bell_circuit_def ground_state_small bit_eval)

lemma simulate_ghz_circuit: "simulate ghz_circuit = [1 / sqrt 2, 0, 0, 0, 0, 0, 0, 1 / sqrt 2]"
  by (simp add: simulate_def ghz_circuit_def ground_state_small bit_eval)

lemma simulate_y_gate_circuit: "simulate y_gate_circuit = [0, \<i>]"
  by (simp add: simulate_def y_gate_circuit_def ground_state_def bit_eval)

lemma engine_probabilities:
  "basis_probabilities (simulate bell_circuit) = [1 / 2, 0, 0, 1 / 2]"
  "basis_probabilities (simulate ghz_circuit) = [1 / 2, 0, 0, 0, 0, 0, 0, 1 / 2]"
  "basis_probabilities (simulate y_gate_circuit) = [0, 1]"
  by (simp_all add: simulate_bell_circuit simulate_ghz_circuit simulate_y_gate_circuit
      basis_probabilities_def norm_divide power_divide)

lemma engine_statevector_data:
  "statevector_data (simulate bell_circuit) = [(1 / sqrt 2, 0), (0, 0), (0, 0), (1 / sqrt 2, 0)]"
  "statevector_data (simulate ghz_circuit) =
     [(1 / sqrt 2, 0), (0, 0), (0, 0), (0, 0), (0, 0), (0, 0), (0, 0), (1 / sqrt 2, 0)]"
  "statevector_data (simulate y_gate_circuit) = [(0, 0), (0, 1)]"
  by (simp_all add: simulate_bell_circuit simulate_ghz_circuit simulate_y_gate_circuit
      statevector_data_def)

lemma marginals_bell:
  "(marginals [1 / 2, 0, 0, 1 / 2] 2 :: 'x exn + marginal_entry list) =
     Inr [\<lparr>qubit = 0, prob_0 = 1 / 2, prob_1 = 1 / 2\<rparr>,
          \<lparr>qubit = 1, prob_0 = 1 / 2, prob_1 = 1 / 2\<rparr>]"
  by (simp add: marginals_def upt_rec shift_mod_2_iff bit_eval)

lemma marginals_ghz:
  "(marginals [1 / 2, 0, 0, 0, 0, 0, 0, 1 / 2] 3 :: 'x exn + marginal_entry list) =
     Inr [\<lparr>qubit = 0, prob_0 = 1 / 2, prob_1 = 1 / 2\<rparr>,
          \<lparr>qubit = 1, prob_0 = 1 / 2, prob_1 = 1 / 2\<rparr>,
          \<lparr>qubit = 2, prob_0 = 1 / 2, prob_1 = 1 / 2\<rparr>]"
  by (simp add: marginals_def upt_rec shift_mod_2_iff bit_eval)

lemma example_depths:
  "metrics_depth bell_circuit = 2" "metrics_depth ghz_circuit = 3"
  "metrics_depth hh_cx_circuit = 2" "metrics_depth y_gate_circuit = 1"
  by (simp_all add: metrics_depth_def schedule_gate_def bell_circuit_def ghz_circuit_def
      hh_cx_circuit_def y_gate_circuit_def numeral_eq_Suc)

lemma example_sizes:
  "metrics_size bell_circuit = 2" "metrics_size ghz_circuit = 3"
  "metrics_size hh_cx_circuit = 3" "metrics_size y_gate_circuit = 1"
  by (simp_all add: metrics_size_def bell_circuit_def ghz_circuit_def hh_cx_circuit_def
      y_gate_circuit_def)

lemma example_qubit_counts:
  "qubit_count bell_circuit = 2" "qubit_count ghz_circuit = 3"
  "qubit_count hh_cx_circuit = 2" "qubit_count y_gate_circuit = 1"
  by (simp_all add: bell_circuit_def ghz_circuit_def hh_cx_circuit_def y_gate_circuit_def)

lemma analyse_bell_circuit:
  "analyse (engine cfg parse) bell_circuit =
     Inr \<lparr> success = True,
           statevector = [(1 / sqrt 2, 0), (0, 0), (0, 0), (1 / sqrt 2, 0)],
           num_qubits = 2, probabilities = [1 / 2, 0, 0, 1 / 2],
           marginal_probabilities =
             [\<lparr>qubit = 0, prob_0 = 1 / 2, prob_1 = 1 / 2\<rparr>,
              \<lparr>qubit = 1, prob_0 = 1 / 2, prob_1 = 1 / 2\<rparr>],
           circuit_depth = 2, circuit_size = 2 \<rparr>"
  by (simp add: analyse_def engine_simps engine_probabilities engine_statevector_data
      marginals_bell example_depths example_sizes example_qubit_counts)

lemma analyse_ghz_circuit:
  "analyse (engine cfg parse) ghz_circuit =
     Inr \<lparr> success = True,
           statevector =
             [(1 / sqrt 2, 0), (0, 0), (0, 0), (0, 0), (0, 0), (0, 0), (0, 0), (1 / sqrt 2, 0)],
           num_qubits = 3, probabilities = [1 / 2, 0, 0, 0, 0, 0, 0, 1 / 2],
           marginal_probabilities =
             [\<lparr>qubit = 0, prob_0 = 1 / 2, prob_1 = 1 / 2\<rparr>,
              \<lparr>qubit = 1, prob_0 = 1 / 2, prob_1 = 1 / 2\<rparr>,
              \<lparr>qubit = 2, prob_0 = 1 / 2, prob_1 = 1 / 2\<rparr>],
           circuit_depth = 3, circuit_size = 3 \<rparr>"
  by (simp add: analyse_def engine_simps engine_probabilities engine_statevector_data
      marginals_ghz example_depths example_sizes example_qubit_counts)

lemma marginals_of_basis_probabilities:
  assumes "length final_state = 2 ^ n"
  shows "(marginals (basis_probabilities final_state) n :: 'x exn + marginal_entry list) =
           Inr (map (\<lambda>q. \<lparr>qubit = int q,
                  prob_0 = (\<Sum>i | i < 2 ^ n \<and> \<not> bit i q. (cmod (final_state ! i))\<^sup>2),
                  prob_1 = (\<Sum>i | i < 2 ^ n \<and> bit i q. (cmod (final_state ! i))\<^sup>2)\<rparr>)
                [0..<n])"
proof -
  let ?ps = "basis_probabilities final_state"
  have len: "length ?ps = 2 ^ n"
    using assms by (simp add: basis_probabilities_length)
  have nth: "?ps ! i = (cmod (final_state ! i))\<^sup>2" if "i < 2 ^ n" for i
    using that assms by (simp add: basis_probabilities_nth)
  have s0: "(\<Sum>i | i < 2 ^ n \<and> \<not> bit i q. ?ps ! i)
              = (\<Sum>i | i < 2 ^ n \<and> \<not> bit i q. (cmod (final_state ! i))\<^sup>2)" for q
    by (rule sum.cong) (simp_all add: nth)
  have s1: "(\<Sum>i | i < 2 ^ n \<and> bit i q. ?ps ! i)
              = (\<Sum>i | i < 2 ^ n \<and> bit i q. (cmod (final_state ! i))\<^sup>2)" for q
    by (rule sum.cong) (simp_all add: nth)
  show ?thesis
    unfolding marginals_def marginals_loop_sums [OF len] s0 s1 ..
qed

subsection \<open>The engine keeps the number of amplitudes\<close>

lemma length_ground_state: "length (ground_state n) = 2 ^ n"
  by (simp add: ground_state_def)

lemma length_apply_gate: "length (apply_gate g psi) = length psi"
  by (cases g) simp_all

lemma length_fold_apply_gate: "length (fold apply_gate gs psi) = length psi"
  by (induction gs arbitrary: psi) (simp_all add: length_apply_gate)

lemma length_simulate: "length (simulate c) = 2 ^ qubit_count c"
  by (simp add: simulate_def length_fold_apply_gate length_ground_state)

lemma analyse_engine:
  "analyse (engine cfg parse) c =
     Inr \<lparr> success = True, statevector = statevector_data (simulate c),
           num_qubits = int (qubit_count c),
           probabilities = basis_probabilities (simulate c),
           marginal_probabilities =
             map (\<lambda>q. \<lparr>qubit = int q,
                  prob_0 = (\<Sum>i | i < 2 ^ qubit_count c \<and> \<not> bit i q.
                              (cmod (simulate c ! i))\<^sup>2),
                  prob_1 = (\<Sum>i | i < 2 ^ qubit_count c \<and> bit i q.
                              (cmod (simulate c ! i))\<^sup>2)\<rparr>)
               [0..<qubit_count c],
           circuit_depth = int (metrics_depth c),
           circuit_size = int (metrics_size c) \<rparr>"
  by (simp add: analyse_def engine_simps Let_def
      marginals_of_basis_probabilities [OF length_simulate])

lemma statevector_data_ground_state:
  "statevector_data (ground_state n) = (1, 0) # replicate (2 ^ n - 1) (0, 0)"
  by (simp add: statevector_data_def ground_state_def)

lemma simulate_empty: "simulate \<lparr> qubit_count = n, operations = [] \<rparr> = ground_state n"
  by (simp add: simulate_def)

subsection \<open>Validation finds the first ill-formed operation\<close>

lemma check_gate_eq:
  "check_gate n k g =
     (if out_of_range n g then Some (Index_out_of_range k)
      else if control_is_target g then Some (Control_equals_target k) else None)"
  by (cases g) (auto simp: out_of_range_def)

lemma check_gates_first:
  assumes "\<exists>g\<in>set ops. ill_formed n g"
  shows "\<exists>k<length ops. ill_formed n (ops ! k) \<and> (\<forall>j<k. \<not> ill_formed n (ops ! j))
           \<and> check_gates n k0 ops =
               Some (if out_of_range n (ops ! k) then Index_out_of_range (k0 + k)
                     else Control_equals_target (k0 + k))"
  using assms
proof (induction ops arbitrary: k0)
  case Nil
  then show ?case by simp
next
  case (Cons g gs)
  show ?case
  proof (cases "ill_formed n g")
    case True
    then have "check_gates n k0 (g # gs) =
        Some (if out_of_range n g then Index_out_of_range k0 else Control_equals_target k0)"
      by (auto simp: check_gate_eq ill_formed_def)
    with True show ?thesis
      by (intro exI [of _ 0]) simp
  next
    case False
    then have none: "check_gate n k0 g = None"
      by (simp add: check_gate_eq ill_formed_def)
    from False Cons.prems have "\<exists>g\<in>set gs. ill_formed n g"
      by auto
    from Cons.IH [OF this, of "Suc k0"] obtain k where k: "k < length gs"
      "ill_formed n (gs ! k)" "\<forall>j<k. \<not> ill_formed n (gs ! j)"
      "check_gates n (Suc k0) gs =
         Some (if out_of_range n (gs ! k) then Index_out_of_range (Suc k0 + k)
               else Control_equals_target (Suc k0 + k))"
      by blast
    have "\<forall>j<Suc k. \<not> ill_formed n ((g # gs) ! j)"
      using False k(3) by (auto simp: less_Suc_eq_0_disj)
    with k none show ?thesis
      by (intro exI [of _ "Suc k"]) simp
  qed
qed

lemma check_gates_none:
  "\<forall>g\<in>set ops. \<not> ill_formed n g \<Longrightarrow> check_gates n k0 ops = None"
  by (induction ops arbitrary: k0) (simp_all add: check_gate_eq ill_formed_def)


lemma run_code_engine:
  "run_code ((engine cfg parse)\<lparr>evolve := ev\<rparr>) (JStr code) =
     (case validate cfg (fst (parse code)) (snd (parse code)) of
        Inl e \<Rightarrow> Inl (External e)
      | Inr c \<Rightarrow> Inr (Some c))"
  "run_code (engine cfg parse) (JStr code) =
     (case validate cfg (fst (parse code)) (snd (parse code)) of
        Inl e \<Rightarrow> Inl (External e)
      | Inr c \<Rightarrow> Inr (Some c))"
  by (simp_all add: run_code_def engine_def split: sum.splits)

subsection \<open>Unitary gates keep the norm\<close>

lemma unitary_pair:
  assumes "is_unitary (a, b, c, d)"
  shows "(cmod (a * x + b * y))\<^sup>2 + (cmod (c * x + d * y))\<^sup>2 = (cmod x)\<^sup>2 + (cmod y)\<^sup>2"
proof -
  from assms have h1: "cnj a * a + cnj c * c = 1" and h2: "cnj b * b + cnj d * d = 1"
    and h3: "cnj a * b + cnj c * d = 0"
    by (simp_all add: is_unitary_def)
  from h3 have "cnj (cnj a * b + cnj c * d) = 0"
    by simp
  then have h4: "a * cnj b + c * cnj d = 0"
    by simp
  have "complex_of_real ((cmod (a * x + b * y))\<^sup>2 + (cmod (c * x + d * y))\<^sup>2)
      = (a * x + b * y) * cnj (a * x + b * y) + (c * x + d * y) * cnj (c * x + d * y)"
    by (simp only: of_real_add complex_norm_square)
  also have "\<dots> = (cnj a * a + cnj c * c) * (x * cnj x) + (cnj b * b + cnj d * d) * (y * cnj y)
      + (cnj a * b + cnj c * d) * (cnj x * y) + (a * cnj b + c * cnj d) * (x * cnj y)"
    by (simp add: algebra_simps)
  also have "\<dots> = x * cnj x + y * cnj y"
    by (simp add: h1 h2 h3 h4)
  also have "\<dots> = complex_of_real ((cmod x)\<^sup>2 + (cmod y)\<^sup>2)"
    by (simp only: of_real_add complex_norm_square)
  finally show ?thesis
    using of_real_eq_iff by blast
qed

lemma named_unitary:
  "is_unitary (matrix_of Hadamard)" "is_unitary (matrix_of PauliX)"
  "is_unitary (matrix_of PauliY)" "is_unitary (matrix_of PauliZ)"
  by (simp_all add: is_unitary_def complex_eq_iff power2_eq_square [symmetric] power_divide)


subsection \<open>Flipping one bit of an index\<close>

lemma flip_bit_involution: "flip_bit t (flip_bit t (i::nat)) = i"
  by (rule bit_eqI) (auto simp: bit_flip_bit_iff)

lemma flip_bit_less:
  assumes "t < n" and "(i::nat) < 2 ^ n"
  shows "flip_bit t i < 2 ^ n"
proof -
  from assms(2) have "take_bit n i = i"
    by (simp add: take_bit_nat_eq_self_iff)
  with assms(1) have "take_bit n (flip_bit t i) = flip_bit t i"
    by (simp add: take_bit_flip_bit_eq)
  then show ?thesis
    by (simp add: take_bit_nat_eq_self_iff)
qed

lemma flip_bit_clear: "\<not> bit (i::nat) t \<Longrightarrow> flip_bit t i = i + 2 ^ t"
  by (simp add: flip_bit_eq_if set_bit_eq)

lemma bit_flip_bit_same: "bit (flip_bit t (i::nat)) t \<longleftrightarrow> \<not> bit i t"
  by (simp add: bit_flip_bit_iff)

lemma flip_bit_set:
  assumes "bit (i::nat) t"
  shows "flip_bit t i = i - 2 ^ t"
proof -
  from assms have "\<not> bit (flip_bit t i) t"
    by (simp add: bit_flip_bit_same)
  then have "flip_bit t (flip_bit t i) = flip_bit t i + 2 ^ t"
    by (rule flip_bit_clear)
  then have "i = flip_bit t i + 2 ^ t"
    by (simp add: flip_bit_involution)
  then show ?thesis
    by simp
qed

lemma bit_flip_bit_other: "c \<noteq> t \<Longrightarrow> bit (flip_bit t (i::nat)) c \<longleftrightarrow> bit i c"
  by (auto simp: bit_flip_bit_iff)

lemma sum_over_pairs:
  fixes h :: "nat \<Rightarrow> real"
  assumes t: "t < n" and S: "\<And>i. S (flip_bit t i) = S i"
  shows "(\<Sum>i<2 ^ n. h i) =
           (\<Sum>i | i < 2 ^ n \<and> \<not> S i. h i)
           + (\<Sum>i | i < 2 ^ n \<and> S i \<and> \<not> bit i t. h i + h (flip_bit t i))"
proof -
  let ?N = "2 ^ n :: nat"
  have fin: "finite {i. i < ?N \<and> Q i}" for Q
    by (rule finite_subset [of _ "{..<?N}"]) auto
  have "(\<Sum>i<?N. h i) = (\<Sum>i | i < ?N \<and> \<not> S i. h i) + (\<Sum>i | i < ?N \<and> S i. h i)"
    by (rule sum_split_by_predicate [symmetric])
  also have "(\<Sum>i | i < ?N \<and> S i. h i)
      = (\<Sum>i\<in>{i. i < ?N \<and> S i \<and> \<not> bit i t} \<union> {i. i < ?N \<and> S i \<and> bit i t}. h i)"
    by (rule sum.cong) auto
  also have "\<dots> = (\<Sum>i | i < ?N \<and> S i \<and> \<not> bit i t. h i)
                  + (\<Sum>i | i < ?N \<and> S i \<and> bit i t. h i)"
    by (rule sum.union_disjoint) (auto simp: fin)
  also have "(\<Sum>i | i < ?N \<and> S i \<and> bit i t. h i)
      = (\<Sum>i | i < ?N \<and> S i \<and> \<not> bit i t. h (flip_bit t i))"
    by (rule sum.reindex_bij_witness [where i = "flip_bit t" and j = "flip_bit t"])
       (auto simp: flip_bit_involution flip_bit_less [OF t] S bit_flip_bit_same)
  finally show ?thesis
    by (simp add: sum.distrib add.assoc)
qed

lemma named_gates_unitary:
  "unitary_gate (Single Hadamard q)" "unitary_gate (Single PauliX q)"
  "unitary_gate (Single PauliY q)" "unitary_gate (Single PauliZ q)"
  "unitary_gate (Controlled Hadamard c t)" "unitary_gate (Controlled PauliX c t)"
  "unitary_gate (Controlled PauliY c t)" "unitary_gate (Controlled PauliZ c t)"
  by (simp_all add: is_unitary_def complex_eq_iff power2_eq_square [symmetric] power_divide)

lemma norm2_nth: "norm2 psi = (\<Sum>i<length psi. (cmod (psi ! i))\<^sup>2)"
  unfolding norm2_def
  by (simp add: sum_list_sum_nth atLeast0LessThan)

lemma norm2_map_upt: "norm2 (map f [0..<N]) = (\<Sum>i<N. (cmod (f i))\<^sup>2)"
  by (simp add: norm2_nth)

lemma pair_transform_norm:
  assumes t: "t < n" and len: "length psi = 2 ^ n"
    and S: "\<And>i. S (flip_bit t i) = S i" and u: "is_unitary m"
  shows "(\<Sum>i<2 ^ n. (cmod (if S i then new_amplitude m t psi i else psi ! i))\<^sup>2)
           = (\<Sum>i<2 ^ n. (cmod (psi ! i))\<^sup>2)"
proof -
  obtain a b c d where m: "m = (a, b, c, d)"
    by (cases m) auto
  let ?new = "\<lambda>i. if S i then new_amplitude m t psi i else psi ! i"
  let ?h1 = "\<lambda>i. (cmod (?new i))\<^sup>2"
  let ?h2 = "\<lambda>i. (cmod (psi ! i))\<^sup>2"
  have pair: "?h1 i + ?h1 (flip_bit t i) = ?h2 i + ?h2 (flip_bit t i)"
    if "S i" and "\<not> bit i t" for i
  proof -
    have f: "flip_bit t i = i + 2 ^ t"
      using that(2) by (rule flip_bit_clear)
    have n1: "?new i = a * psi ! i + b * psi ! (flip_bit t i)"
      using that by (simp add: m f)
    have "bit (flip_bit t i) t"
      using that(2) by (simp add: bit_flip_bit_same)
    then have n2: "?new (flip_bit t i) = c * psi ! i + d * psi ! (flip_bit t i)"
      using that(1) by (simp add: m S) (simp add: f)
    show ?thesis
      unfolding n1 n2 using u unfolding m by (rule unitary_pair)
  qed
  have "(\<Sum>i<2 ^ n. ?h1 i) =
          (\<Sum>i | i < 2 ^ n \<and> \<not> S i. ?h1 i)
          + (\<Sum>i | i < 2 ^ n \<and> S i \<and> \<not> bit i t. ?h1 i + ?h1 (flip_bit t i))"
    by (rule sum_over_pairs [where S = S, OF t S])
  also have "(\<Sum>i | i < 2 ^ n \<and> \<not> S i. ?h1 i) = (\<Sum>i | i < 2 ^ n \<and> \<not> S i. ?h2 i)"
    by (rule sum.cong) auto
  also have "(\<Sum>i | i < 2 ^ n \<and> S i \<and> \<not> bit i t. ?h1 i + ?h1 (flip_bit t i))
           = (\<Sum>i | i < 2 ^ n \<and> S i \<and> \<not> bit i t. ?h2 i + ?h2 (flip_bit t i))"
    by (rule sum.cong) (use pair in auto)
  also have "(\<Sum>i | i < 2 ^ n \<and> \<not> S i. ?h2 i)
          + (\<Sum>i | i < 2 ^ n \<and> S i \<and> \<not> bit i t. ?h2 i + ?h2 (flip_bit t i))
          = (\<Sum>i<2 ^ n. ?h2 i)"
    by (rule sum_over_pairs [where S = S, OF t S, symmetric])
  finally show ?thesis .
qed


lemma swap_bits_involution: "swap_bits a b (swap_bits a b i) = i"
proof (cases "bit i a = bit i b")
  case True
  then show ?thesis by (simp add: swap_bits_def)
next
  case False
  then have ab: "a \<noteq> b"
    by auto
  let ?j = "flip_bit a (flip_bit b i)"
  have "bit ?j a \<noteq> bit ?j b"
    using False ab by (auto simp: bit_flip_bit_iff)
  then have "swap_bits a b ?j = flip_bit a (flip_bit b ?j)"
    by (simp add: swap_bits_def)
  also have "\<dots> = i"
    by (rule bit_eqI) (auto simp: bit_flip_bit_iff)
  finally show ?thesis
    using False by (simp add: swap_bits_def)
qed

lemma swap_bits_less:
  assumes "a < n" "b < n" "i < 2 ^ n"
  shows "swap_bits a b i < 2 ^ n"
  using assms by (simp add: swap_bits_def flip_bit_less)

lemma swap_norm:
  assumes "a < n" "b < n"
  shows "(\<Sum>i<2 ^ n. (cmod (psi ! swap_bits a b i))\<^sup>2) = (\<Sum>i<2 ^ n. (cmod (psi ! i))\<^sup>2)"
  by (rule sum.reindex_bij_witness [where i = "swap_bits a b" and j = "swap_bits a b"])
     (auto simp: swap_bits_involution swap_bits_less [OF assms])

lemma apply_gate_norm2:
  assumes wf: "\<not> ill_formed n g" and u: "unitary_gate g" and len: "length psi = 2 ^ n"
  shows "norm2 (apply_gate g psi) = norm2 psi"
proof (cases g)
  case (Single v q)
  with wf have q: "q < n"
    by (simp add: ill_formed_def out_of_range_def)
  from Single u have m: "is_unitary (matrix_of v)"
    by simp
  have "norm2 (apply_gate g psi)
          = (\<Sum>i<2 ^ n. (cmod (if True then new_amplitude (matrix_of v) q psi i else psi ! i))\<^sup>2)"
    by (simp add: Single norm2_map_upt len)
  also have "\<dots> = (\<Sum>i<2 ^ n. (cmod (psi ! i))\<^sup>2)"
    by (rule pair_transform_norm [where S = "\<lambda>i. True", OF q len _ m]) simp
  finally show ?thesis
    by (simp add: norm2_nth len)
next
  case (Controlled v c t)
  with wf have t: "t < n" and ct: "c \<noteq> t"
    by (auto simp: ill_formed_def out_of_range_def)
  from Controlled u have m: "is_unitary (matrix_of v)"
    by simp
  have "norm2 (apply_gate g psi)
          = (\<Sum>i<2 ^ n. (cmod (if bit i c then new_amplitude (matrix_of v) t psi i
                                else psi ! i))\<^sup>2)"
    by (simp add: Controlled norm2_map_upt len)
  also have "\<dots> = (\<Sum>i<2 ^ n. (cmod (psi ! i))\<^sup>2)"
    by (rule pair_transform_norm [where S = "\<lambda>i. bit i c", OF t len _ m])
       (simp add: bit_flip_bit_other [OF ct])
  finally show ?thesis
    by (simp add: norm2_nth len)
next
  case (CPhase \<theta> c t)
  have "norm2 (apply_gate g psi)
          = (\<Sum>i<2 ^ n. (cmod (if bit i c \<and> bit i t then cis \<theta> * psi ! i else psi ! i))\<^sup>2)"
    by (simp add: CPhase norm2_map_upt len)
  also have "\<dots> = (\<Sum>i<2 ^ n. (cmod (psi ! i))\<^sup>2)"
    by (rule sum.cong) (simp_all add: norm_mult)
  finally show ?thesis
    by (simp add: norm2_nth len)
next
  case (Swap a b)
  with wf have ab: "a < n" "b < n"
    by (auto simp: ill_formed_def out_of_range_def)
  have "norm2 (apply_gate g psi) = (\<Sum>i<2 ^ n. (cmod (psi ! swap_bits a b i))\<^sup>2)"
    by (simp add: Swap norm2_map_upt len)
  also have "\<dots> = (\<Sum>i<2 ^ n. (cmod (psi ! i))\<^sup>2)"
    by (rule swap_norm [OF ab])
  finally show ?thesis
    by (simp add: norm2_nth len)
qed

lemma fold_apply_gate_norm2:
  assumes "\<forall>g\<in>set gs. \<not> ill_formed n g \<and> unitary_gate g" and "length psi = 2 ^ n"
  shows "norm2 (fold apply_gate gs psi) = norm2 psi"
  using assms
proof (induction gs arbitrary: psi)
  case Nil
  then show ?case by simp
next
  case (Cons g gs)
  have "norm2 (apply_gate g psi) = norm2 psi"
    by (rule apply_gate_norm2 [where n = n]) (use Cons.prems in auto)
  moreover have "length (apply_gate g psi) = 2 ^ n"
    using Cons.prems by (simp add: length_apply_gate)
  ultimately show ?case
    using Cons by simp
qed

lemma norm2_ground_state: "norm2 (ground_state n) = 1"
  by (simp add: norm2_def ground_state_def sum_list_replicate)

lemma check_gates_well_formed:
  "check_gates n k0 ops = None \<Longrightarrow> \<forall>g\<in>set ops. \<not> ill_formed n g"
  by (induction ops arbitrary: k0)
     (auto simp: check_gate_eq ill_formed_def split: option.splits if_splits)

lemma validate_well_formed:
  assumes "validate cfg n ops = Inr c"
  shows "c = \<lparr> qubit_count = n, operations = ops \<rparr> \<and> (\<forall>g\<in>set ops. \<not> ill_formed n g)
         \<and> 1 \<le> n \<and> n \<le> max_qubits cfg \<and> length ops \<le> max_operations cfg"
  using assms
  by (auto simp: validate_def split: if_splits option.splits dest: check_gates_well_formed)

lemma simulate_norm2:
  assumes "validate cfg n ops = Inr c" and "\<forall>g\<in>set ops. unitary_gate g"
  shows "norm2 (simulate c) = 1"
proof -
  from validate_well_formed [OF assms(1)] have c: "c = \<lparr> qubit_count = n, operations = ops \<rparr>"
    and wf: "\<forall>g\<in>set ops. \<not> ill_formed n g"
    by auto
  have "norm2 (simulate c) = norm2 (ground_state n)"
    unfolding simulate_def c
    by (simp add: fold_apply_gate_norm2 [where n = n] wf assms(2) length_ground_state)
  then show ?thesis
    by (simp add: norm2_ground_state)
qed

subsection \<open>The scheduled depth is the length of the longest chain\<close>

lemma fold_max_Max: "fold max xs (a::nat) = Max (insert a (set xs))"
  using Max.set_eq_fold [of a xs] by simp

lemma gate_qubits_nonempty: "gate_qubits g \<noteq> []"
  by (cases g) simp_all

lemma length_fold_update: "length (fold (\<lambda>q ls. ls[q := d]) qs L) = length L"
  by (induction qs arbitrary: L) simp_all

lemma fold_update_nth:
  "q < length L \<Longrightarrow> fold (\<lambda>q ls. ls[q := d]) qs L ! q = (if q \<in> set qs then d else L ! q)"
  by (induction qs arbitrary: L) (auto simp: nth_list_update)

lemma length_schedule_gate: "length (schedule_gate g L) = length L"
  by (simp add: schedule_gate_def Let_def length_fold_update)

lemma schedule_gate_nth:
  "q < length L \<Longrightarrow>
   schedule_gate g L ! q =
     (if q \<in> set (gate_qubits g)
      then Suc (Max (insert 0 ((!) L ` set (gate_qubits g)))) else L ! q)"
  by (simp add: schedule_gate_def Let_def fold_update_nth fold_max_Max)

lemma subseq_snoc:
  "subseq ch (ops @ [g]) \<longleftrightarrow> subseq ch ops \<or> (\<exists>ch'. ch = ch' @ [g] \<and> subseq ch' ops)"
proof -
  have s: "subseq xs [g] \<longleftrightarrow> xs = [] \<or> xs = [g]" for xs :: "'a list"
    by (cases xs) (auto split: if_splits)
  show ?thesis
    by (auto simp: subseq_append_iff s)
qed

lemma shares_qubit_iff:
  "shares_qubit h g \<longleftrightarrow> (\<exists>q. q \<in> set (gate_qubits h) \<and> q \<in> set (gate_qubits g))"
  by (auto simp: shares_qubit_def list_ex_iff)

lemma dependency_chain_snoc:
  "dependency_chain (ops @ [g]) ch \<longleftrightarrow>
     dependency_chain ops ch
     \<or> (\<exists>ch'. ch = ch' @ [g] \<and> dependency_chain ops ch'
           \<and> (ch' = [] \<or> shares_qubit (last ch') g))"
  by (auto simp: dependency_chain_def subseq_snoc successively_append_iff)

lemma dependency_chain_last:
  "dependency_chain ops ch \<Longrightarrow> ch \<noteq> [] \<Longrightarrow> last ch \<in> set ops"
  using list_emb_set [of "(=)" ch ops "last ch"] by (auto simp: dependency_chain_def)

lemma dependency_chain_Nil: "dependency_chain [] ch \<longleftrightarrow> ch = []"
  by (auto simp: dependency_chain_def)

lemma dependency_chain_empty: "dependency_chain ops []"
  by (simp add: dependency_chain_def)

lemma schedule_levels:
  assumes "\<forall>g\<in>set ops. \<forall>q\<in>set (gate_qubits g). q < n"
  shows "length (fold schedule_gate ops (replicate n 0)) = n
    \<and> (\<forall>ch q. dependency_chain ops ch \<and> ch \<noteq> [] \<and> q \<in> set (gate_qubits (last ch))
          \<longrightarrow> length ch \<le> fold schedule_gate ops (replicate n 0) ! q)
    \<and> (\<forall>q<n. 0 < fold schedule_gate ops (replicate n 0) ! q \<longrightarrow>
          (\<exists>ch. dependency_chain ops ch \<and> ch \<noteq> [] \<and> q \<in> set (gate_qubits (last ch))
             \<and> length ch = fold schedule_gate ops (replicate n 0) ! q))"
  using assms
proof (induction ops rule: rev_induct)
  case Nil
  show ?case
    by (simp add: dependency_chain_Nil)
next
  case (snoc g ops)
  define L where "L = fold schedule_gate ops (replicate n 0)"
  define m where "m = Max (insert 0 ((!) L ` set (gate_qubits g)))"
  from snoc.prems have inr: "\<forall>h\<in>set ops. \<forall>q\<in>set (gate_qubits h). q < n"
    and gq: "\<forall>q\<in>set (gate_qubits g). q < n"
    by simp_all
  from snoc.IH [OF inr] have len: "length L = n"
    and upper: "\<And>ch q. dependency_chain ops ch \<Longrightarrow> ch \<noteq> [] \<Longrightarrow>
                  q \<in> set (gate_qubits (last ch)) \<Longrightarrow> length ch \<le> L ! q"
    and attained: "\<And>q. q < n \<Longrightarrow> 0 < L ! q \<Longrightarrow>
                  \<exists>ch. dependency_chain ops ch \<and> ch \<noteq> [] \<and> q \<in> set (gate_qubits (last ch))
                     \<and> length ch = L ! q"
    unfolding L_def by blast+
  have new: "fold schedule_gate (ops @ [g]) (replicate n 0) = schedule_gate g L"
    by (simp add: L_def)
  have nth: "schedule_gate g L ! q = (if q \<in> set (gate_qubits g) then Suc m else L ! q)"
    if "q < n" for q
    using that by (simp add: schedule_gate_nth len m_def)
  have m_ge: "L ! q \<le> m" if "q \<in> set (gate_qubits g)" for q
    unfolding m_def using that by (intro Max_ge) auto
  have m_in: "m = 0 \<or> (\<exists>q\<in>set (gate_qubits g). m = L ! q \<and> 0 < L ! q)"
  proof -
    have "m \<in> insert 0 ((!) L ` set (gate_qubits g))"
      unfolding m_def by (intro Max_in) auto
    then show ?thesis
      by auto
  qed
  have 1: "length (schedule_gate g L) = n"
    by (simp add: length_schedule_gate len)
  have 2: "length ch \<le> schedule_gate g L ! q"
    if ch: "dependency_chain (ops @ [g]) ch" "ch \<noteq> []" "q \<in> set (gate_qubits (last ch))"
    for ch q
  proof -
    from dependency_chain_last [OF ch(1,2)] snoc.prems ch(3) have q: "q < n"
      by blast
    from ch(1) consider (old) "dependency_chain ops ch"
      | (new) ch' where "ch = ch' @ [g]" "dependency_chain ops ch'"
          "ch' = [] \<or> shares_qubit (last ch') g"
      by (auto simp: dependency_chain_snoc)
    then show ?thesis
    proof cases
      case old
      from upper [OF old ch(2,3)] have "length ch \<le> L ! q" .
      moreover have "L ! q \<le> schedule_gate g L ! q"
        using m_ge [of q] by (auto simp: nth [OF q])
      ultimately show ?thesis
        by simp
    next
      case new
      from new(1) ch(3) have qg: "q \<in> set (gate_qubits g)"
        by simp
      have "length ch' \<le> m"
      proof (cases "ch' = []")
        case True
        then show ?thesis
          by simp
      next
        case False
        with new(3) obtain q' where q': "q' \<in> set (gate_qubits (last ch'))"
          "q' \<in> set (gate_qubits g)"
          by (auto simp: shares_qubit_iff)
        from upper [OF new(2) False q'(1)] m_ge [OF q'(2)] show ?thesis
          by simp
      qed
      with new(1) qg show ?thesis
        by (simp add: nth [OF q])
    qed
  qed
  have 3: "\<exists>ch. dependency_chain (ops @ [g]) ch \<and> ch \<noteq> [] \<and> q \<in> set (gate_qubits (last ch))
             \<and> length ch = schedule_gate g L ! q"
    if q: "q < n" and pos: "0 < schedule_gate g L ! q" for q
  proof (cases "q \<in> set (gate_qubits g)")
    case True
    from m_in show ?thesis
    proof
      assume "m = 0"
      then have "dependency_chain (ops @ [g]) [g] \<and> [g] \<noteq> [] \<and> q \<in> set (gate_qubits (last [g]))
             \<and> length [g] = schedule_gate g L ! q"
        using True by (simp add: nth [OF q] dependency_chain_snoc dependency_chain_empty)
      then show ?thesis
        by blast
    next
      assume "\<exists>q\<in>set (gate_qubits g). m = L ! q \<and> 0 < L ! q"
      then obtain q' where q': "q' \<in> set (gate_qubits g)" "m = L ! q'" "0 < L ! q'"
        by blast
      from gq q'(1) have "q' < n"
        by blast
      from attained [OF this q'(3)] obtain ch' where ch': "dependency_chain ops ch'"
        "ch' \<noteq> []" "q' \<in> set (gate_qubits (last ch'))" "length ch' = L ! q'"
        by blast
      have "shares_qubit (last ch') g"
        using ch'(3) q'(1) by (auto simp: shares_qubit_iff)
      with ch' have "dependency_chain (ops @ [g]) (ch' @ [g])"
        by (simp add: dependency_chain_snoc)
      moreover have "length (ch' @ [g]) = schedule_gate g L ! q"
        using True ch'(4) q'(2) by (simp add: nth [OF q])
      ultimately have "dependency_chain (ops @ [g]) (ch' @ [g]) \<and> ch' @ [g] \<noteq> []
             \<and> q \<in> set (gate_qubits (last (ch' @ [g])))
             \<and> length (ch' @ [g]) = schedule_gate g L ! q"
        using True by simp
      then show ?thesis
        by blast
    qed
  next
    case False
    with pos have "0 < L ! q" "schedule_gate g L ! q = L ! q"
      by (simp_all add: nth [OF q])
    with attained [OF q] obtain ch where "dependency_chain ops ch" "ch \<noteq> []"
      "q \<in> set (gate_qubits (last ch))" "length ch = schedule_gate g L ! q"
      by auto
    then have "dependency_chain (ops @ [g]) ch \<and> ch \<noteq> [] \<and> q \<in> set (gate_qubits (last ch))
             \<and> length ch = schedule_gate g L ! q"
      by (simp add: dependency_chain_snoc)
    then show ?thesis
      by blast
  qed
  from 1 2 3 show ?case
    unfolding new by blast
qed

lemma metrics_depth_longest_chain:
  assumes "\<forall>g\<in>set ops. \<forall>q\<in>set (gate_qubits g). q < n"
  shows "dependency_chain ops ch \<longrightarrow>
           length ch \<le> metrics_depth \<lparr> qubit_count = n, operations = ops \<rparr>"
    and "\<exists>ch. dependency_chain ops ch
           \<and> length ch = metrics_depth \<lparr> qubit_count = n, operations = ops \<rparr>"
proof -
  define L where "L = fold schedule_gate ops (replicate n 0)"
  have d: "metrics_depth \<lparr> qubit_count = n, operations = ops \<rparr> = Max (insert 0 (set L))"
    by (simp add: metrics_depth_def fold_max_Max L_def)
  from schedule_levels [OF assms] have len: "length L = n"
    and upper: "\<And>ch q. dependency_chain ops ch \<Longrightarrow> ch \<noteq> [] \<Longrightarrow>
                  q \<in> set (gate_qubits (last ch)) \<Longrightarrow> length ch \<le> L ! q"
    and attained: "\<And>q. q < n \<Longrightarrow> 0 < L ! q \<Longrightarrow>
                  \<exists>ch. dependency_chain ops ch \<and> ch \<noteq> [] \<and> q \<in> set (gate_qubits (last ch))
                     \<and> length ch = L ! q"
    unfolding L_def by blast+
  show "dependency_chain ops ch \<longrightarrow>
           length ch \<le> metrics_depth \<lparr> qubit_count = n, operations = ops \<rparr>"
  proof
    assume ch: "dependency_chain ops ch"
    show "length ch \<le> metrics_depth \<lparr> qubit_count = n, operations = ops \<rparr>"
    proof (cases "ch = []")
      case True
      then show ?thesis
        by simp
    next
      case False
      from gate_qubits_nonempty [of "last ch"] obtain q where q: "q \<in> set (gate_qubits (last ch))"
        by (cases "gate_qubits (last ch)") auto
      from dependency_chain_last [OF ch False] assms q have "q < n"
        by blast
      with len have "L ! q \<in> insert 0 (set L)"
        by simp
      then have "L ! q \<le> Max (insert 0 (set L))"
        by (intro Max_ge) auto
      with upper [OF ch False q] show ?thesis
        by (simp add: d)
    qed
  qed
  have "Max (insert 0 (set L)) \<in> insert 0 (set L)"
    by (intro Max_in) auto
  then have "Max (insert 0 (set L)) = 0
    \<or> (\<exists>q<n. Max (insert 0 (set L)) = L ! q \<and> 0 < L ! q)"
  proof (cases "Max (insert 0 (set L)) = 0")
    case True
    then show ?thesis
      by simp
  next
    case False
    assume "Max (insert 0 (set L)) \<in> insert 0 (set L)"
    with False have "Max (insert 0 (set L)) \<in> set L"
      by simp
    then obtain q where "q < length L" "L ! q = Max (insert 0 (set L))"
      unfolding in_set_conv_nth by blast
    with False len show ?thesis
      by auto
  qed
  then show "\<exists>ch. dependency_chain ops ch
           \<and> length ch = metrics_depth \<lparr> qubit_count = n, operations = ops \<rparr>"
  proof (elim disjE exE conjE)
    assume "Max (insert 0 (set L)) = 0"
    then have "dependency_chain ops [] \<and> length ([] :: gate list) = Max (insert 0 (set L))"
      by (simp add: dependency_chain_empty)
    then show ?thesis
      unfolding d by blast
  next
    fix q
    assume q: "q < n" "Max (insert 0 (set L)) = L ! q" "0 < L ! q"
    from attained [OF q(1,3)] q(2) show ?thesis
      unfolding d by auto
  qed
qed

subsection \<open>What the routes answer\<close>

















subsection \<open>Probabilities from amplitudes\<close>

lemma amp_prob_statevector_data:
  "map amp_prob (statevector_data fs) = basis_probabilities fs"
  by (simp add: statevector_data_def basis_probabilities_def amp_prob_def cmod_power2)

lemma sum_list_basis_probabilities:
  "sum_list (basis_probabilities fs) = (\<Sum>a\<leftarrow>fs. (cmod a)\<^sup>2)"
  by (simp add: basis_probabilities_def)

lemma length_statevector_data: "length (statevector_data fs) = length fs"
  by (simp add: statevector_data_def)

lemma analyse_fields:
  assumes "analyse qk circuit = Inr r"
  shows "\<exists>fs. evolve qk circuit = Inr fs \<and> statevector r = statevector_data fs
           \<and> probabilities r = basis_probabilities fs
           \<and> num_qubits r = int (circ_num_qubits qk circuit)"
  using assms by (auto simp: analyse_def Let_def split: sum.splits)

lemma simple_fallback_probabilities:
  "probabilities (simulate_simple_circuit ct m)
     = map amp_prob (statevector (simulate_simple_circuit ct m))"
  "length (probabilities (simulate_simple_circuit ct m))
     = 2 ^ nat (num_qubits (simulate_simple_circuit ct m))"
  by (simp_all add: simulate_simple_circuit_def assemble_def
      bell_statevector_def ghz_statevector_def superposition_statevector_def
      x_gate_statevector_def default_statevector_2)

lemma simple_fallback_sum: "sum_list (probabilities (simulate_simple_circuit ct m)) = 1"
  by (simp add: simulate_simple_circuit_def assemble_def table_probabilities)

lemma docker_fallback_probabilities:
  "probabilities (simulate_simple_circuit_docker code)
     = map amp_prob (statevector (simulate_simple_circuit_docker code))"
  "length (probabilities (simulate_simple_circuit_docker code))
     = 2 ^ nat (num_qubits (simulate_simple_circuit_docker code))"
  by (simp_all add: simulate_simple_circuit_docker_def assemble_docker_def
      bell_statevector_def ghz_statevector_def superposition_statevector_def
      x_gate_statevector_def default_statevector_2 Let_def)

lemma docker_fallback_sum:
  "sum_list (probabilities (simulate_simple_circuit_docker code)) = 1"
  by (simp add: simulate_simple_circuit_docker_def assemble_docker_def table_probabilities
      Let_def)

section \<open>Probabilities of the basis states\<close>

text \<open>
  C1: the probabilities returned are the squared magnitudes \<open>re\<^sup>2 + im\<^sup>2\<close> of the
  amplitudes returned, entry by entry, and there is one per basis state.  For the fallback
  simulators (every \<^verbatim>\<open>circuit_type\<close>, every text) the list has \<open>2 ^ num_qubits\<close> entries
  and its sum is within \<open>10\<^sup>-\<^sup>6\<close> of 1.  For the analytics of \<^verbatim>\<open>quantum_backend.py\<close> the
  same holds of every result, given that the evolution has returned \<open>2 ^ num_qubits\<close>
  amplitudes whose squared magnitudes sum to 1 within \<open>10\<^sup>-\<^sup>6\<close>.  The engine does so:
  for every validated circuit of unitary gates the analytics succeed, with \<open>2 ^ n\<close>
  probabilities whose sum is 1.
\<close>

theorem probabilities_squared_magnitudes:
  "probabilities (simulate_simple_circuit ct m)
     = map amp_prob (statevector (simulate_simple_circuit ct m))
   \<and> length (probabilities (simulate_simple_circuit ct m))
       = 2 ^ nat (num_qubits (simulate_simple_circuit ct m))
   \<and> \<bar>sum_list (probabilities (simulate_simple_circuit ct m)) - 1\<bar> \<le> 1 / 10 ^ 6
   \<and> probabilities (simulate_simple_circuit_docker code)
       = map amp_prob (statevector (simulate_simple_circuit_docker code))
   \<and> length (probabilities (simulate_simple_circuit_docker code))
       = 2 ^ nat (num_qubits (simulate_simple_circuit_docker code))
   \<and> \<bar>sum_list (probabilities (simulate_simple_circuit_docker code)) - 1\<bar> \<le> 1 / 10 ^ 6
   \<and> (analyse qk circuit = Inr r \<longrightarrow>
        probabilities r = map amp_prob (statevector r)
        \<and> length (probabilities r) = length (statevector r))
   \<and> (analyse qk circuit = Inr r \<and> evolve qk circuit = Inr fs
        \<and> length fs = 2 ^ circ_num_qubits qk circuit
        \<and> \<bar>(\<Sum>a\<leftarrow>fs. (cmod a)\<^sup>2) - 1\<bar> \<le> 1 / 10 ^ 6 \<longrightarrow>
        length (probabilities r) = 2 ^ nat (num_qubits r)
        \<and> \<bar>sum_list (probabilities r) - 1\<bar> \<le> 1 / 10 ^ 6)
   \<and> (validate cfg n ops = Inr c \<and> (\<forall>g\<in>set ops. unitary_gate g) \<longrightarrow>
        (\<exists>r'. analyse (engine cfg parse) c = Inr r'
           \<and> probabilities r' = map amp_prob (statevector r')
           \<and> length (probabilities r') = 2 ^ n
           \<and> num_qubits r' = int n
           \<and> sum_list (probabilities r') = 1))"
proof -
  have a: "analyse qk circuit = Inr r \<longrightarrow>
        probabilities r = map amp_prob (statevector r)
        \<and> length (probabilities r) = length (statevector r)"
  proof
    assume "analyse qk circuit = Inr r"
    from analyse_fields [OF this] obtain gs where
      "statevector r = statevector_data gs" "probabilities r = basis_probabilities gs"
      by blast
    then show "probabilities r = map amp_prob (statevector r)
        \<and> length (probabilities r) = length (statevector r)"
      by (simp add: amp_prob_statevector_data basis_probabilities_length
          length_statevector_data)
  qed
  have b: "analyse qk circuit = Inr r \<and> evolve qk circuit = Inr fs
        \<and> length fs = 2 ^ circ_num_qubits qk circuit
        \<and> \<bar>(\<Sum>a\<leftarrow>fs. (cmod a)\<^sup>2) - 1\<bar> \<le> 1 / 10 ^ 6 \<longrightarrow>
        length (probabilities r) = 2 ^ nat (num_qubits r)
        \<and> \<bar>sum_list (probabilities r) - 1\<bar> \<le> 1 / 10 ^ 6"
  proof
    assume h: "analyse qk circuit = Inr r \<and> evolve qk circuit = Inr fs
        \<and> length fs = 2 ^ circ_num_qubits qk circuit
        \<and> \<bar>(\<Sum>a\<leftarrow>fs. (cmod a)\<^sup>2) - 1\<bar> \<le> 1 / 10 ^ 6"
    from analyse_fields [of qk circuit r] h have
      "probabilities r = basis_probabilities fs"
      "num_qubits r = int (circ_num_qubits qk circuit)"
      by auto
    with h show "length (probabilities r) = 2 ^ nat (num_qubits r)
        \<and> \<bar>sum_list (probabilities r) - 1\<bar> \<le> 1 / 10 ^ 6"
      by (simp add: basis_probabilities_length sum_list_basis_probabilities)
  qed
  have c: "\<bar>sum_list (probabilities (simulate_simple_circuit ct m)) - 1\<bar> \<le> 1 / 10 ^ 6"
    "\<bar>sum_list (probabilities (simulate_simple_circuit_docker code)) - 1\<bar> \<le> 1 / 10 ^ 6"
    by (simp_all add: simple_fallback_sum docker_fallback_sum)
  have d: "validate cfg n ops = Inr c \<and> (\<forall>g\<in>set ops. unitary_gate g) \<longrightarrow>
        (\<exists>r'. analyse (engine cfg parse) c = Inr r'
           \<and> probabilities r' = map amp_prob (statevector r')
           \<and> length (probabilities r') = 2 ^ n
           \<and> num_qubits r' = int n
           \<and> sum_list (probabilities r') = 1)"
  proof
    assume h: "validate cfg n ops = Inr c \<and> (\<forall>g\<in>set ops. unitary_gate g)"
    then have one: "norm2 (simulate c) = 1"
      by (auto intro: simulate_norm2)
    from h have n: "qubit_count c = n"
      by (auto dest: validate_well_formed)
    show "\<exists>r'. analyse (engine cfg parse) c = Inr r'
           \<and> probabilities r' = map amp_prob (statevector r')
           \<and> length (probabilities r') = 2 ^ n
           \<and> num_qubits r' = int n
           \<and> sum_list (probabilities r') = 1"
      using one n
      by (simp add: analyse_engine amp_prob_statevector_data basis_probabilities_length
          length_simulate sum_list_basis_probabilities norm2_def)
  qed
  from a b c d simple_fallback_probabilities [of ct m] docker_fallback_probabilities [of code]
  show ?thesis
    by blast
qed

text \<open>The witness: the Bell circuit through the engine and the analytics.\<close>

theorem probabilities_squared_magnitudes_witness:
  "analyse (engine example_config (\<lambda>code. (2, operations bell_circuit))) bell_circuit =
     Inr \<lparr> success = True,
           statevector = [(1 / sqrt 2, 0), (0, 0), (0, 0), (1 / sqrt 2, 0)],
           num_qubits = 2, probabilities = [1 / 2, 0, 0, 1 / 2],
           marginal_probabilities =
             [\<lparr>qubit = 0, prob_0 = 1 / 2, prob_1 = 1 / 2\<rparr>,
              \<lparr>qubit = 1, prob_0 = 1 / 2, prob_1 = 1 / 2\<rparr>],
           circuit_depth = 2, circuit_size = 2 \<rparr>
   \<and> evolve (engine example_config (\<lambda>code. (2, operations bell_circuit))) bell_circuit
       = Inr (simulate bell_circuit)
   \<and> length (simulate bell_circuit)
       = 2 ^ circ_num_qubits (engine example_config (\<lambda>code. (2, operations bell_circuit)))
             bell_circuit
   \<and> \<bar>(\<Sum>a\<leftarrow>simulate bell_circuit. (cmod a)\<^sup>2) - 1\<bar> \<le> 1 / 10 ^ 6
   \<and> validate example_config 2 (operations bell_circuit) = Inr bell_circuit
   \<and> unitary_gate (Single Hadamard 0) \<and> unitary_gate (Controlled PauliX 0 1)
   \<and> [1 / 2, 0, 0, 1 / 2]
       = map amp_prob [(1 / sqrt 2, 0), (0, 0), (0, 0), (1 / sqrt 2, 0)]
   \<and> \<bar>sum_list [1 / 2, 0, 0, 1 / 2 :: real] - 1\<bar> \<le> 1 / 10 ^ 6"
proof -
  let ?qk = "engine example_config (\<lambda>code. (2, operations bell_circuit))"
  let ?r = "\<lparr> success = True,
           statevector = [(1 / sqrt 2, 0), (0, 0), (0, 0), (1 / sqrt 2, 0)],
           num_qubits = 2, probabilities = [1 / 2, 0, 0, 1 / 2],
           marginal_probabilities =
             [\<lparr>qubit = 0, prob_0 = 1 / 2, prob_1 = 1 / 2\<rparr>,
              \<lparr>qubit = 1, prob_0 = 1 / 2, prob_1 = 1 / 2\<rparr>],
           circuit_depth = 2, circuit_size = 2 \<rparr>"
  have a: "analyse ?qk bell_circuit = Inr ?r"
    by (rule analyse_bell_circuit)
  have e: "evolve ?qk bell_circuit = Inr (simulate bell_circuit)"
    by (simp add: engine_simps)
  have l: "length (simulate bell_circuit) = 2 ^ circ_num_qubits ?qk bell_circuit"
    by (simp add: engine_simps length_simulate)
  have n: "\<bar>(\<Sum>a\<leftarrow>simulate bell_circuit. (cmod a)\<^sup>2) - 1\<bar> \<le> 1 / 10 ^ 6"
    using engine_probabilities(1) by (simp add: basis_probabilities_def)
  have v: "validate example_config 2 (operations bell_circuit) = Inr bell_circuit"
    by (simp add: validate_def example_config_def bell_circuit_def)
  have u: "\<forall>g\<in>set (operations bell_circuit). unitary_gate g"
    by (simp add: bell_circuit_def named_gates_unitary del: unitary_gate.simps)
  from probabilities_squared_magnitudes
    [where qk = ?qk and circuit = bell_circuit and r = ?r and fs = "simulate bell_circuit"
      and cfg = example_config and n = 2 and ops = "operations bell_circuit"
      and c = bell_circuit]
    a e l n v u
  have w: "probabilities ?r = map amp_prob (statevector ?r)
        \<and> \<bar>sum_list (probabilities ?r) - 1\<bar> \<le> 1 / 10 ^ 6"
    by blast
  have g: "unitary_gate (Single Hadamard 0)" "unitary_gate (Controlled PauliX 0 1)"
    by (rule named_gates_unitary)+
  from a e l n v g w show ?thesis
    by (simp del: unitary_gate.simps)
qed

section \<open>Marginal probabilities\<close>

text \<open>
  C2: for a statevector of \<open>2 ^ n\<close> amplitudes the marginal loops of \<^verbatim>\<open>quantum_backend.py\<close>
  (and of \<^verbatim>\<open>simulate_with_qiskit\<close>) raise nothing and return one entry per qubit, in order.
  The entry of qubit \<open>q\<close> holds the sum of the probabilities \<open>|amplitude i|\<^sup>2\<close> over the
  indices \<open>i\<close> whose bit \<open>q\<close> is clear, and the sum over those whose bit \<open>q\<close> is set; bit 0
  is the least significant bit of the index (an index is odd exactly when its bit 0 is
  set).  For every qubit below \<open>n\<close> the two sums add up to the total probability, so they add
  up to 1 within \<open>10\<^sup>-\<^sup>6\<close> whenever the statevector is normalised within \<open>10\<^sup>-\<^sup>6\<close>.
\<close>

theorem marginals_group_by_bit:
  assumes "length final_state = 2 ^ n"
  shows "(marginals (basis_probabilities final_state) n :: 'x exn + marginal_entry list) =
           Inr (map (\<lambda>q. \<lparr>qubit = int q,
                  prob_0 = (\<Sum>i | i < 2 ^ n \<and> \<not> bit i q. (cmod (final_state ! i))\<^sup>2),
                  prob_1 = (\<Sum>i | i < 2 ^ n \<and> bit i q. (cmod (final_state ! i))\<^sup>2)\<rparr>)
                [0..<n])
         \<and> (\<forall>i::nat. bit i 0 \<longleftrightarrow> odd i)
         \<and> (\<forall>q<n. (\<Sum>i | i < 2 ^ n \<and> \<not> bit i q. (cmod (final_state ! i))\<^sup>2)
                   + (\<Sum>i | i < 2 ^ n \<and> bit i q. (cmod (final_state ! i))\<^sup>2)
                   = (\<Sum>i<2 ^ n. (cmod (final_state ! i))\<^sup>2))
         \<and> (\<bar>(\<Sum>i<2 ^ n. (cmod (final_state ! i))\<^sup>2) - 1\<bar> \<le> 1 / 10 ^ 6 \<longrightarrow>
              (\<forall>q<n. \<bar>(\<Sum>i | i < 2 ^ n \<and> \<not> bit i q. (cmod (final_state ! i))\<^sup>2)
                   + (\<Sum>i | i < 2 ^ n \<and> bit i q. (cmod (final_state ! i))\<^sup>2) - 1\<bar>
                   \<le> 1 / 10 ^ 6))"
proof -
  have a: "(marginals (basis_probabilities final_state) n :: 'x exn + marginal_entry list) =
           Inr (map (\<lambda>q. \<lparr>qubit = int q,
                  prob_0 = (\<Sum>i | i < 2 ^ n \<and> \<not> bit i q. (cmod (final_state ! i))\<^sup>2),
                  prob_1 = (\<Sum>i | i < 2 ^ n \<and> bit i q. (cmod (final_state ! i))\<^sup>2)\<rparr>)
                [0..<n])"
    by (rule marginals_of_basis_probabilities [OF assms])
  have b: "\<forall>i::nat. bit i 0 \<longleftrightarrow> odd i"
    by (simp add: bit_0)
  have c: "(\<Sum>i | i < 2 ^ n \<and> \<not> bit i q. (cmod (final_state ! i))\<^sup>2)
             + (\<Sum>i | i < 2 ^ n \<and> bit i q. (cmod (final_state ! i))\<^sup>2)
             = (\<Sum>i<2 ^ n. (cmod (final_state ! i))\<^sup>2)" for q
    by (rule sum_split_by_predicate)
  show ?thesis
    using a b c by simp
qed

text \<open>
  The witness: the one-qubit state \<open>|1\<rangle>\<close>, two amplitudes, where qubit 0 is measured as 1
  with certainty.
\<close>

theorem marginals_group_by_bit_witness:
  "length [0, 1 :: complex] = 2 ^ 1
   \<and> (marginals (basis_probabilities [0, 1]) 1 :: unit exn + marginal_entry list)
        = Inr [\<lparr>qubit = 0, prob_0 = 0, prob_1 = 1\<rparr>]
   \<and> (\<Sum>i | i < 2 ^ 1 \<and> \<not> bit i (0::nat). (cmod ([0, 1] ! i))\<^sup>2)
       + (\<Sum>i | i < 2 ^ 1 \<and> bit i 0. (cmod ([0, 1] ! i))\<^sup>2) = 1"
proof -
  have l: "length [0, 1 :: complex] = 2 ^ 1"
    by simp
  have m: "(marginals (basis_probabilities [0, 1]) 1 :: unit exn + marginal_entry list)
        = Inr [\<lparr>qubit = 0, prob_0 = 0, prob_1 = 1\<rparr>]"
    by (simp add: marginals_def basis_probabilities_def upt_rec shift_mod_2_iff bit_eval)
  have t: "(\<Sum>i<2 ^ 1. (cmod ([0, 1 :: complex] ! i))\<^sup>2) = 1"
    by (simp add: numeral_2_eq_2 lessThan_Suc)
  have "\<forall>q<1. (\<Sum>i | i < 2 ^ 1 \<and> \<not> bit i q. (cmod ([0, 1] ! i))\<^sup>2)
       + (\<Sum>i | i < 2 ^ 1 \<and> bit i q. (cmod ([0, 1] ! i))\<^sup>2)
       = (\<Sum>i<2 ^ 1. (cmod ([0, 1 :: complex] ! i))\<^sup>2)"
    using marginals_group_by_bit [OF l] by blast
  then have "(\<Sum>i | i < 2 ^ 1 \<and> \<not> bit i (0::nat). (cmod ([0, 1] ! i))\<^sup>2)
       + (\<Sum>i | i < 2 ^ 1 \<and> bit i 0. (cmod ([0, 1] ! i))\<^sup>2) = 1"
    unfolding t by blast
  with l m show ?thesis
    by blast
qed

section \<open>The Bell and GHZ circuits\<close>

text \<open>
  C3: the Bell circuit (two qubits, H on qubit 0, CX with control 0 and target 1) gives the
  probabilities \<open>[1/2, 0, 0, 1/2]\<close> and the marginals \<open>1/2\<close>, \<open>1/2\<close> for both qubits:
  in the table of \<^verbatim>\<open>simulate_simple_circuit('bell_state')\<close>, for the published Bell script
  through the \<^verbatim>\<open>/simulate\<close> route of the simple back end and through the fallback of the
  Docker back end, and in the analytics of \<^verbatim>\<open>quantum_backend.py\<close> run on the engine.
\<close>

theorem bell_circuit_results:
  "probabilities (simulate_simple_circuit ''bell_state'' n) = [1 / 2, 0, 0, 1 / 2]
   \<and> marginal_probabilities (simulate_simple_circuit ''bell_state'' n) =
        [\<lparr>qubit = 0, prob_0 = 1 / 2, prob_1 = 1 / 2\<rparr>,
         \<lparr>qubit = 1, prob_0 = 1 / 2, prob_1 = 1 / 2\<rparr>]
   \<and> num_qubits (simulate_simple_circuit ''bell_state'' n) = 2
   \<and> simulate_quantum_circuit_simple (post_code bell_example)
        = Answered (simulate_simple_circuit ''bell_state'' 2)
   \<and> simulate_quantum_circuit_docker False qk (post_code bell_example)
        = Answered (simulate_simple_circuit_docker bell_example)
   \<and> probabilities (simulate_simple_circuit_docker bell_example) = [1 / 2, 0, 0, 1 / 2]
   \<and> marginal_probabilities (simulate_simple_circuit_docker bell_example) =
        [\<lparr>qubit = 0, prob_0 = 1 / 2, prob_1 = 1 / 2\<rparr>,
         \<lparr>qubit = 1, prob_0 = 1 / 2, prob_1 = 1 / 2\<rparr>]
   \<and> num_qubits (simulate_simple_circuit_docker bell_example) = 2
   \<and> analyse (engine cfg parse) bell_circuit =
        Inr \<lparr> success = True,
              statevector = [(1 / sqrt 2, 0), (0, 0), (0, 0), (1 / sqrt 2, 0)],
              num_qubits = 2, probabilities = [1 / 2, 0, 0, 1 / 2],
              marginal_probabilities =
                [\<lparr>qubit = 0, prob_0 = 1 / 2, prob_1 = 1 / 2\<rparr>,
                 \<lparr>qubit = 1, prob_0 = 1 / 2, prob_1 = 1 / 2\<rparr>],
              circuit_depth = 2, circuit_size = 2 \<rparr>"
proof -
  have a: "simulate_simple_circuit ''bell_state'' m = assemble 2 bell_statevector bell_marginals"
    for m
    by (simp add: simulate_simple_circuit_def)
  have b: "simulate_simple_circuit_docker bell_example
             = assemble_docker 2 bell_statevector bell_marginals ''bell_state''"
    by (simp add: simulate_simple_circuit_docker_def docker_patterns_bell_example)
  show ?thesis
    unfolding a b simple_route_post_code docker_route_fallback_post_code analyse_bell_circuit
      simulate_text_simple_def classify_simple_examples
    by (simp add: a assemble_def assemble_docker_def table_probabilities bell_marginals_def)
qed

text \<open>
  C4: the GHZ circuit (three qubits, H on qubit 0, CX from 0 to 1, CX from 0 to 2).  The
  simple back end and the engine give probability \<open>1/2\<close> at the indices 0 and 7 and the
  marginals \<open>1/2\<close>, \<open>1/2\<close> for the three qubits.  The fallback of the Docker back end does
  not: its Bell test \<^verbatim>\<open>"h(0)" in code and "cx(0, 1)" in code\<close> comes first and holds for
  the published GHZ script, so the answer is the two-qubit Bell state, with four
  probabilities and no index 7.
\<close>

theorem ghz_docker_fallback_returns_bell:
  "simulate_quantum_circuit_docker False qk (post_code ghz_example)
     = Answered (simulate_simple_circuit_docker ghz_example)
   \<and> num_qubits (simulate_simple_circuit_docker ghz_example) = 2
   \<and> probabilities (simulate_simple_circuit_docker ghz_example) = [1 / 2, 0, 0, 1 / 2]
   \<and> length (marginal_probabilities (simulate_simple_circuit_docker ghz_example)) = 2
   \<and> circuit_type_name (simulate_simple_circuit_docker ghz_example) = Some ''bell_state''
   \<and> simulate_quantum_circuit_simple (post_code ghz_example)
        = Answered (simulate_simple_circuit ''ghz_state'' 2)
   \<and> num_qubits (simulate_simple_circuit ''ghz_state'' 2) = 3
   \<and> probabilities (simulate_simple_circuit ''ghz_state'' 2) = [1 / 2, 0, 0, 0, 0, 0, 0, 1 / 2]
   \<and> marginal_probabilities (simulate_simple_circuit ''ghz_state'' 2) =
        [\<lparr>qubit = 0, prob_0 = 1 / 2, prob_1 = 1 / 2\<rparr>,
         \<lparr>qubit = 1, prob_0 = 1 / 2, prob_1 = 1 / 2\<rparr>,
         \<lparr>qubit = 2, prob_0 = 1 / 2, prob_1 = 1 / 2\<rparr>]
   \<and> analyse (engine cfg parse) ghz_circuit =
        Inr \<lparr> success = True,
              statevector =
                [(1 / sqrt 2, 0), (0, 0), (0, 0), (0, 0), (0, 0), (0, 0), (0, 0),
                 (1 / sqrt 2, 0)],
              num_qubits = 3, probabilities = [1 / 2, 0, 0, 0, 0, 0, 0, 1 / 2],
              marginal_probabilities =
                [\<lparr>qubit = 0, prob_0 = 1 / 2, prob_1 = 1 / 2\<rparr>,
                 \<lparr>qubit = 1, prob_0 = 1 / 2, prob_1 = 1 / 2\<rparr>,
                 \<lparr>qubit = 2, prob_0 = 1 / 2, prob_1 = 1 / 2\<rparr>],
              circuit_depth = 3, circuit_size = 3 \<rparr>"
proof -
  have a: "simulate_simple_circuit ''ghz_state'' m = assemble 3 ghz_statevector ghz_marginals"
    for m
    by (simp add: simulate_simple_circuit_def)
  have b: "simulate_simple_circuit_docker ghz_example
             = assemble_docker 2 bell_statevector bell_marginals ''bell_state''"
    by (simp add: simulate_simple_circuit_docker_def docker_patterns_ghz_example)
  show ?thesis
    unfolding a b simple_route_post_code docker_route_fallback_post_code analyse_ghz_circuit
      simulate_text_simple_def classify_simple_examples
    by (simp add: a assemble_def assemble_docker_def table_probabilities bell_marginals_def
        ghz_marginals_def)
qed

section \<open>Circuit metrics\<close>

text \<open>
  C5, as stated, fails on the fallback simulator: depth and size are the constants 2 and 2.
  The script with H on qubit 0, H on qubit 1 and CX on both has three operations and the
  route answers size 2; the published GHZ script has three operations in a chain and the
  route answers depth 2 and size 2.
\<close>

theorem metrics_fallback_counterexample:
  "circuit_size (simulate_text_simple hh_cx_code) = 2
   \<and> metrics_size hh_cx_circuit = 3
   \<and> circuit_size (simulate_text_simple ghz_example) = 2
   \<and> circuit_depth (simulate_text_simple ghz_example) = 2
   \<and> metrics_size ghz_circuit = 3 \<and> metrics_depth ghz_circuit = 3"
  by (simp add: simulate_text_simple_def classify_simple_examples simulate_simple_circuit_def
      assemble_def example_sizes example_depths)

text \<open>
  C5, amended: the fallback simulators answer \<^verbatim>\<open>circuit_depth = 2\<close> and
  \<^verbatim>\<open>circuit_size = 2\<close> for every input.  The full back end answers what the circuit's
  \<^verbatim>\<open>depth()\<close> and \<^verbatim>\<open>size()\<close> return.  For every circuit that passes validation, the engine
  answers as size the number of operations and as depth the length of the longest chain of
  dependent operations: some chain has exactly that length and no chain is longer.  Two
  single-qubit gates on distinct qubits followed by a two-qubit gate on both give depth 2
  and size 3, the GHZ circuit gives depth 3 and size 3, and a circuit without operations
  gives depth 0 and size 0.
\<close>

theorem circuit_metrics:
  "circuit_depth (simulate_simple_circuit ct m) = 2
   \<and> circuit_size (simulate_simple_circuit ct m) = 2
   \<and> circuit_depth (simulate_simple_circuit_docker code) = 2
   \<and> circuit_size (simulate_simple_circuit_docker code) = 2
   \<and> (analyse qk circuit = Inr r \<longrightarrow>
        circuit_depth r = circ_depth qk circuit \<and> circuit_size r = circ_size qk circuit)
   \<and> (validate cfg n ops = Inr c \<longrightarrow>
        (\<exists>r. analyse (engine cfg parse) c = Inr r
           \<and> circuit_size r = int (length ops)
           \<and> (\<exists>ch. dependency_chain ops ch \<and> int (length ch) = circuit_depth r)
           \<and> (\<forall>ch. dependency_chain ops ch \<longrightarrow> int (length ch) \<le> circuit_depth r)))
   \<and> circ_size (engine cfg parse) c0 = int (length (operations c0))
   \<and> circ_depth (engine cfg parse) hh_cx_circuit = 2
   \<and> circ_size (engine cfg parse) hh_cx_circuit = 3
   \<and> circ_depth (engine cfg parse) ghz_circuit = 3
   \<and> circ_size (engine cfg parse) ghz_circuit = 3
   \<and> circ_depth (engine cfg parse) \<lparr> qubit_count = 3, operations = [] \<rparr> = 0
   \<and> circ_size (engine cfg parse) \<lparr> qubit_count = 3, operations = [] \<rparr> = 0"
proof -
  have a: "analyse qk circuit = Inr r \<longrightarrow>
        circuit_depth r = circ_depth qk circuit \<and> circuit_size r = circ_size qk circuit"
    by (auto simp: analyse_def Let_def split: sum.splits)
  have b: "circuit_depth (simulate_simple_circuit ct m) = 2"
    "circuit_size (simulate_simple_circuit ct m) = 2"
    by (simp_all add: simulate_simple_circuit_def assemble_def)
  have c: "circuit_depth (simulate_simple_circuit_docker code) = 2"
    "circuit_size (simulate_simple_circuit_docker code) = 2"
    by (simp_all add: simulate_simple_circuit_docker_def assemble_docker_def Let_def)
  have d: "circ_size (engine cfg parse) c0 = int (length (operations c0))"
    by (simp add: engine_simps metrics_size_def)
  have e: "circ_depth (engine cfg parse) hh_cx_circuit = 2"
    "circ_size (engine cfg parse) hh_cx_circuit = 3"
    "circ_depth (engine cfg parse) ghz_circuit = 3"
    "circ_size (engine cfg parse) ghz_circuit = 3"
    by (simp_all add: engine_simps example_depths example_sizes)
  have f: "circ_depth (engine cfg parse) \<lparr> qubit_count = 3, operations = [] \<rparr> = 0"
    "circ_size (engine cfg parse) \<lparr> qubit_count = 3, operations = [] \<rparr> = 0"
    by (simp_all add: engine_simps metrics_depth_def metrics_size_def numeral_eq_Suc)
  have g: "validate cfg n ops = Inr c \<longrightarrow>
        (\<exists>r. analyse (engine cfg parse) c = Inr r
           \<and> circuit_size r = int (length ops)
           \<and> (\<exists>ch. dependency_chain ops ch \<and> int (length ch) = circuit_depth r)
           \<and> (\<forall>ch. dependency_chain ops ch \<longrightarrow> int (length ch) \<le> circuit_depth r))"
  proof
    assume v: "validate cfg n ops = Inr c"
    from validate_well_formed [OF v] have c: "c = \<lparr> qubit_count = n, operations = ops \<rparr>"
      and wf: "\<forall>g\<in>set ops. \<not> ill_formed n g"
      by simp_all
    from wf have inr: "\<forall>g\<in>set ops. \<forall>q\<in>set (gate_qubits g). q < n"
      by (auto simp: ill_formed_def out_of_range_def not_le)
    obtain r where r: "analyse (engine cfg parse) c = Inr r"
      "circuit_depth r = int (metrics_depth c)" "circuit_size r = int (metrics_size c)"
      by (simp add: analyse_engine)
    from metrics_depth_longest_chain(2) [OF inr] obtain ch where
      ch: "dependency_chain ops ch" "int (length ch) = circuit_depth r"
      unfolding r(2) c by auto
    have le: "\<forall>ch. dependency_chain ops ch \<longrightarrow> int (length ch) \<le> circuit_depth r"
      using metrics_depth_longest_chain(1) [OF inr] unfolding r(2) c by auto
    have sz: "circuit_size r = int (length ops)"
      by (simp add: r(3) c metrics_size_def)
    from r(1) sz ch le show "\<exists>r. analyse (engine cfg parse) c = Inr r
           \<and> circuit_size r = int (length ops)
           \<and> (\<exists>ch. dependency_chain ops ch \<and> int (length ch) = circuit_depth r)
           \<and> (\<forall>ch. dependency_chain ops ch \<longrightarrow> int (length ch) \<le> circuit_depth r)"
      by blast
  qed
  from a b c d e f g show ?thesis
    by blast
qed

text \<open>
  The witness: the Bell circuit through the analytics, with depth 2 and size 2, and the
  GHZ circuit, which passes validation and whose three operations form one chain.
\<close>

theorem circuit_metrics_witness:
  "analyse (engine example_config (\<lambda>code. (3, operations ghz_circuit))) bell_circuit =
     Inr \<lparr> success = True,
           statevector = [(1 / sqrt 2, 0), (0, 0), (0, 0), (1 / sqrt 2, 0)],
           num_qubits = 2, probabilities = [1 / 2, 0, 0, 1 / 2],
           marginal_probabilities =
             [\<lparr>qubit = 0, prob_0 = 1 / 2, prob_1 = 1 / 2\<rparr>,
              \<lparr>qubit = 1, prob_0 = 1 / 2, prob_1 = 1 / 2\<rparr>],
           circuit_depth = 2, circuit_size = 2 \<rparr>
   \<and> circ_depth (engine example_config (\<lambda>code. (3, operations ghz_circuit))) bell_circuit = 2
   \<and> circ_size (engine example_config (\<lambda>code. (3, operations ghz_circuit))) bell_circuit = 2
   \<and> validate example_config 3 (operations ghz_circuit) = Inr ghz_circuit
   \<and> dependency_chain (operations ghz_circuit) (operations ghz_circuit)
   \<and> (\<exists>r. analyse (engine example_config (\<lambda>code. (3, operations ghz_circuit))) ghz_circuit
            = Inr r
         \<and> circuit_size r = 3
         \<and> (\<exists>ch. dependency_chain (operations ghz_circuit) ch
                \<and> int (length ch) = circuit_depth r)
         \<and> int (length (operations ghz_circuit)) \<le> circuit_depth r)"
proof -
  let ?qk = "engine example_config (\<lambda>code. (3, operations ghz_circuit))"
  let ?r = "\<lparr> success = True,
           statevector = [(1 / sqrt 2, 0), (0, 0), (0, 0), (1 / sqrt 2, 0)],
           num_qubits = 2, probabilities = [1 / 2, 0, 0, 1 / 2],
           marginal_probabilities =
             [\<lparr>qubit = 0, prob_0 = 1 / 2, prob_1 = 1 / 2\<rparr>,
              \<lparr>qubit = 1, prob_0 = 1 / 2, prob_1 = 1 / 2\<rparr>],
           circuit_depth = 2, circuit_size = 2 \<rparr>"
  have a: "analyse ?qk bell_circuit = Inr ?r"
    by (rule analyse_bell_circuit)
  have v: "validate example_config 3 (operations ghz_circuit) = Inr ghz_circuit"
    by (simp add: validate_def example_config_def ghz_circuit_def)
  have ch: "dependency_chain (operations ghz_circuit) (operations ghz_circuit)"
    by (simp add: dependency_chain_def shares_qubit_def ghz_circuit_def)
  have l: "length (operations ghz_circuit) = 3"
    by (simp add: ghz_circuit_def)
  note t = circuit_metrics [where qk = ?qk and circuit = bell_circuit and r = ?r
      and cfg = example_config and parse = "\<lambda>code. (3, operations ghz_circuit)"
      and n = 3 and ops = "operations ghz_circuit" and c = ghz_circuit]
  from t a have p: "circuit_depth ?r = circ_depth ?qk bell_circuit
        \<and> circuit_size ?r = circ_size ?qk bell_circuit"
    by blast
  from t v obtain r where r: "analyse ?qk ghz_circuit = Inr r"
    "circuit_size r = int (length (operations ghz_circuit))"
    "\<exists>ch. dependency_chain (operations ghz_circuit) ch \<and> int (length ch) = circuit_depth r"
    "\<forall>ch. dependency_chain (operations ghz_circuit) ch \<longrightarrow> int (length ch) \<le> circuit_depth r"
    by blast
  from r(4) ch have "int (length (operations ghz_circuit)) \<le> circuit_depth r"
    by blast
  with r(1,2,3) l have "\<exists>r. analyse ?qk ghz_circuit = Inr r
         \<and> circuit_size r = 3
         \<and> (\<exists>ch. dependency_chain (operations ghz_circuit) ch
                \<and> int (length ch) = circuit_depth r)
         \<and> int (length (operations ghz_circuit)) \<le> circuit_depth r"
    by auto
  moreover from p have "circ_depth ?qk bell_circuit = 2 \<and> circ_size ?qk bell_circuit = 2"
    by simp
  ultimately show ?thesis
    using a v ch by blast
qed

section \<open>Failures\<close>




section \<open>Rejection of ill-formed circuits\<close>

text \<open>
  C7: a script whose circuit references a qubit index that is not below its qubit count,
  or has a controlled gate with control equal to target, is rejected.  Building the
  circuit fails with a validation error: the qubit count is out of bounds, or else the
  error names the first ill-formed operation and the constraint it violates.  The route
  of \<^verbatim>\<open>quantum_backend.py\<close> (and the Docker route with Qiskit) answers with the failure
  \<^verbatim>\<open>Simulation error: ...\<close> carrying that error.  The statevector is never built: the
  answer is the same whatever the evolution function is.
\<close>

theorem ill_formed_circuit_rejected:
  assumes "parse code = (n, ops)" and "\<exists>g\<in>set ops. ill_formed n g"
  shows "\<exists>e. validate cfg n ops = Inl e
     \<and> (1 \<le> n \<and> n \<le> max_qubits cfg \<longrightarrow>
          (\<exists>k<length ops. ill_formed n (ops ! k) \<and> (\<forall>j<k. \<not> ill_formed n (ops ! j))
             \<and> e = (if out_of_range n (ops ! k) then Index_out_of_range k
                    else Control_equals_target k)))
     \<and> (\<not> (1 \<le> n \<and> n \<le> max_qubits cfg) \<longrightarrow> e = Qubit_count_out_of_bounds)
     \<and> simulate_quantum_circuit (engine cfg parse) (post_code code)
         = Failed \<lparr> status = 500, error = Simulation_error (External e) \<rparr>
     \<and> (\<forall>ev. simulate_quantum_circuit ((engine cfg parse)\<lparr>evolve := ev\<rparr>) (post_code code)
         = Failed \<lparr> status = 500, error = Simulation_error (External e) \<rparr>)
     \<and> simulate_quantum_circuit_docker True (engine cfg parse) (post_code code)
         = Failed \<lparr> status = 500, error = Simulation_error (External e) \<rparr>"
proof -
  from check_gates_first [OF assms(2), of 0] obtain k where k: "k < length ops"
    "ill_formed n (ops ! k)" "\<forall>j<k. \<not> ill_formed n (ops ! j)"
    "check_gates n 0 ops =
       Some (if out_of_range n (ops ! k) then Index_out_of_range k else Control_equals_target k)"
    by auto
  define e where "e =
    (if n < 1 \<or> max_qubits cfg < n then Qubit_count_out_of_bounds
     else if out_of_range n (ops ! k) then Index_out_of_range k else Control_equals_target k)"
  have v: "validate cfg n ops = Inl e"
    by (simp add: validate_def k(4) e_def)
  have r: "simulate_quantum_circuit ((engine cfg parse)\<lparr>evolve := ev\<rparr>) (post_code code)
         = Failed \<lparr> status = 500, error = Simulation_error (External e) \<rparr>" for ev
    by (simp add: simulate_quantum_circuit_def read_code_post_code run_code_engine assms(1) v
        except_exception_def server_error_def)
  have r0: "simulate_quantum_circuit (engine cfg parse) (post_code code)
         = Failed \<lparr> status = 500, error = Simulation_error (External e) \<rparr>"
    by (simp add: simulate_quantum_circuit_def read_code_post_code run_code_engine assms(1) v
        except_exception_def server_error_def)
  have d: "simulate_quantum_circuit_docker True (engine cfg parse) (post_code code)
         = Failed \<lparr> status = 500, error = Simulation_error (External e) \<rparr>"
    by (simp add: simulate_quantum_circuit_docker_def simulate_with_qiskit_def
        read_code_post_code run_code_engine assms(1) v except_exception_def server_error_def)
  have a: "1 \<le> n \<and> n \<le> max_qubits cfg \<longrightarrow>
          (\<exists>k<length ops. ill_formed n (ops ! k) \<and> (\<forall>j<k. \<not> ill_formed n (ops ! j))
             \<and> e = (if out_of_range n (ops ! k) then Index_out_of_range k
                    else Control_equals_target k))"
    using k(1,2,3) by (auto simp: e_def)
  have b: "\<not> (1 \<le> n \<and> n \<le> max_qubits cfg) \<longrightarrow> e = Qubit_count_out_of_bounds"
    by (auto simp: e_def)
  from v a b r0 r d show ?thesis
    by blast
qed

theorem ill_formed_circuit_rejected_witness:
  "(\<lambda>code. (2, bad_circuit_ops)) ''circ.cx(1, 1)'' = (2, bad_circuit_ops)
   \<and> (\<exists>g\<in>set bad_circuit_ops. ill_formed 2 g)
   \<and> validate example_config 2 bad_circuit_ops = Inl (Control_equals_target 1)
   \<and> simulate_quantum_circuit (engine example_config (\<lambda>code. (2, bad_circuit_ops)))
        (post_code ''circ.cx(1, 1)'')
       = Failed \<lparr> status = 500, error = Simulation_error (External (Control_equals_target 1)) \<rparr>"
proof -
  have p: "(\<lambda>code. (2, bad_circuit_ops)) ''circ.cx(1, 1)'' = (2::nat, bad_circuit_ops)"
    by simp
  have i: "\<exists>g\<in>set bad_circuit_ops. ill_formed 2 g"
    by (simp add: bad_circuit_ops_def ill_formed_def)
  have v: "validate example_config 2 bad_circuit_ops = Inl (Control_equals_target 1)"
    by (simp add: validate_def example_config_def bad_circuit_ops_def)
  from ill_formed_circuit_rejected [of "\<lambda>code. (2, bad_circuit_ops)", OF p i, of example_config]
  obtain e where e: "validate example_config 2 bad_circuit_ops = Inl e"
    "simulate_quantum_circuit (engine example_config (\<lambda>code. (2, bad_circuit_ops)))
        (post_code ''circ.cx(1, 1)'')
       = Failed \<lparr> status = 500, error = Simulation_error (External e) \<rparr>"
    by blast
  from e(1) v have "e = Control_equals_target 1"
    by simp
  with e(2) p i v show ?thesis
    by blast
qed

section \<open>The empty circuit\<close>

text \<open>
  C8, as stated, fails on the fallback simulator: asked for three qubits it answers with
  four amplitudes, not eight, and the script of an empty three-qubit circuit is answered
  with \<^verbatim>\<open>num_qubits = 2\<close>.
\<close>

theorem empty_circuit_fallback_counterexample:
  "statevector (simulate_simple_circuit ''default'' 3) \<noteq> (1, 0) # replicate (2 ^ 3 - 1) (0, 0)
   \<and> length (statevector (simulate_simple_circuit ''default'' 3)) = 4
   \<and> (simulate_quantum_circuit_simple (post_code empty_3_code) :: (unit, sim_result) response)
        = Answered (simulate_simple_circuit ''default'' 2)
   \<and> num_qubits (simulate_simple_circuit ''default'' 2) = 2
   \<and> length (statevector (simulate_simple_circuit ''default'' 2)) = 4"
proof -
  have d: "simulate_simple_circuit ''default'' k
             = assemble 2 (default_statevector 2) (default_marginals 2)" for k
    by (simp add: simulate_simple_circuit_def)
  have l: "length (statevector (simulate_simple_circuit ''default'' k)) = 4" for k
    by (simp add: d assemble_def default_statevector_2)
  have n: "statevector (simulate_simple_circuit ''default'' 3)
             \<noteq> (1, 0) # replicate (2 ^ 3 - 1) (0, 0)"
  proof
    assume "statevector (simulate_simple_circuit ''default'' 3)
              = (1, 0) # replicate (2 ^ 3 - 1) (0, 0)"
    then have "length (statevector (simulate_simple_circuit ''default'' 3))
                 = length ((1, 0) # replicate (2 ^ 3 - 1) (0, 0) :: (real \<times> real) list)"
      by (rule arg_cong)
    then show False
      unfolding l by simp
  qed
  have r: "(simulate_quantum_circuit_simple (post_code empty_3_code)
             :: (unit, sim_result) response) = Answered (simulate_simple_circuit ''default'' 2)"
    by (simp add: simple_route_post_code simulate_text_simple_def classify_simple_examples)
  have q: "num_qubits (simulate_simple_circuit ''default'' 2) = 2"
    by (simp add: d assemble_def)
  from n l r q show ?thesis
    by blast
qed

text \<open>
  C8, amended: in the engine an empty operation list leaves the ground state of the
  declared \<open>n\<close> qubits, \<open>2 ^ n\<close> amplitudes with amplitude 0 equal to \<open>(1, 0)\<close> and all
  others \<open>(0, 0)\<close>, and the analytics return it.  The fallback simulators answer an
  unmatched input with the ground state of two qubits, four amplitudes and
  \<^verbatim>\<open>num_qubits = 2\<close>, whatever qubit count is passed or declared.
\<close>

theorem empty_circuit_ground_state:
  "statevector_data (simulate \<lparr> qubit_count = n, operations = [] \<rparr>)
     = (1, 0) # replicate (2 ^ n - 1) (0, 0)
   \<and> (\<exists>r. analyse (engine cfg parse) \<lparr> qubit_count = n, operations = [] \<rparr> = Inr r
          \<and> statevector r = (1, 0) # replicate (2 ^ n - 1) (0, 0)
          \<and> num_qubits r = int n)
   \<and> statevector (simulate_simple_circuit ''default'' m) = [(1, 0), (0, 0), (0, 0), (0, 0)]
   \<and> num_qubits (simulate_simple_circuit ''default'' m) = 2
   \<and> simulate_quantum_circuit_simple (post_code empty_3_code)
        = Answered (simulate_simple_circuit ''default'' 2)
   \<and> simulate_quantum_circuit_docker False qk (post_code empty_3_code)
        = Answered (simulate_simple_circuit_docker empty_3_code)
   \<and> statevector (simulate_simple_circuit_docker empty_3_code)
        = [(1, 0), (0, 0), (0, 0), (0, 0)]
   \<and> num_qubits (simulate_simple_circuit_docker empty_3_code) = 2"
proof -
  have p: "\<not> is_bell_docker (lower empty_3_code)" "\<not> is_ghz (lower empty_3_code)"
    "\<not> is_superposition (lower empty_3_code)" "\<not> is_x_gate (lower empty_3_code)"
    by code_simp+
  have d: "simulate_simple_circuit_docker empty_3_code
             = assemble_docker 2 (default_statevector 2) (default_marginals 2) ''default''"
    by (simp add: simulate_simple_circuit_docker_def p)
  show ?thesis
    by (simp add: simple_route_post_code docker_route_fallback_post_code d
        simulate_text_simple_def classify_simple_examples simulate_simple_circuit_def
        assemble_def assemble_docker_def default_statevector_2 analyse_engine simulate_empty
        statevector_data_ground_state)
qed

section \<open>The fallback simulators on unmatched input\<close>

text \<open>
  C9: an input that matches none of the known circuit patterns gets the fixed 2-qubit
  ground-state answer with \<^verbatim>\<open>success = True\<close>, depth 2 and size 2.  This holds for
  \<^verbatim>\<open>simulate_simple_circuit\<close> called with any \<^verbatim>\<open>circuit_type\<close> other than the four known
  names, for the \<^verbatim>\<open>/simulate\<close> route of the simple back end on a text for which every
  pattern test fails, and for the fallback of the Docker back end (which also reports
  \<^verbatim>\<open>simulation_type = 'simple'\<close> and \<^verbatim>\<open>circuit_type = 'default'\<close>).
\<close>

theorem fallback_unmatched_ground_state:
  "(circuit_type \<notin> {''bell_state'', ''ghz_state'', ''superposition'', ''x_gate''} \<longrightarrow>
      simulate_simple_circuit circuit_type n =
        \<lparr> success = True, statevector = [(1, 0), (0, 0), (0, 0), (0, 0)], num_qubits = 2,
          probabilities = [1, 0, 0, 0],
          marginal_probabilities =
            [\<lparr>qubit = 0, prob_0 = 1, prob_1 = 0\<rparr>, \<lparr>qubit = 1, prob_0 = 1, prob_1 = 0\<rparr>],
          circuit_depth = 2, circuit_size = 2 \<rparr>)
   \<and> (\<not> is_ghz (lower code) \<and> \<not> is_bell_simple (lower code)
        \<and> \<not> is_superposition (lower code) \<and> \<not> is_x_gate (lower code) \<longrightarrow>
      simulate_text_simple code =
        \<lparr> success = True, statevector = [(1, 0), (0, 0), (0, 0), (0, 0)], num_qubits = 2,
          probabilities = [1, 0, 0, 0],
          marginal_probabilities =
            [\<lparr>qubit = 0, prob_0 = 1, prob_1 = 0\<rparr>, \<lparr>qubit = 1, prob_0 = 1, prob_1 = 0\<rparr>],
          circuit_depth = 2, circuit_size = 2 \<rparr>)
   \<and> (\<not> is_bell_docker (lower code) \<and> \<not> is_ghz (lower code)
        \<and> \<not> is_superposition (lower code) \<and> \<not> is_x_gate (lower code) \<longrightarrow>
      simulate_simple_circuit_docker code =
        \<lparr> success = True, statevector = [(1, 0), (0, 0), (0, 0), (0, 0)], num_qubits = 2,
          probabilities = [1, 0, 0, 0],
          marginal_probabilities =
            [\<lparr>qubit = 0, prob_0 = 1, prob_1 = 0\<rparr>, \<lparr>qubit = 1, prob_0 = 1, prob_1 = 0\<rparr>],
          circuit_depth = 2, circuit_size = 2,
          simulation_type = ''simple'', circuit_type_name = Some ''default'' \<rparr>)"
  by (simp add: simulate_simple_circuit_def simulate_text_simple_def classify_simple_def
      simulate_simple_circuit_docker_def assemble_def assemble_docker_def
      default_statevector_2 default_marginals_2 amp_prob_def)

text \<open>
  The witness: the circuit type \<^verbatim>\<open>'default'\<close> that the route passes, and a one-qubit circuit
  with a Y gate, which no pattern recognises.
\<close>

theorem fallback_unmatched_ground_state_witness:
  "''default'' \<notin> {''bell_state'', ''ghz_state'', ''superposition'', ''x_gate''}
   \<and> statevector (simulate_simple_circuit ''default'' 5) = [(1, 0), (0, 0), (0, 0), (0, 0)]
   \<and> \<not> is_ghz (lower y_gate_code) \<and> \<not> is_bell_simple (lower y_gate_code)
   \<and> \<not> is_bell_docker (lower y_gate_code)
   \<and> \<not> is_superposition (lower y_gate_code) \<and> \<not> is_x_gate (lower y_gate_code)
   \<and> num_qubits (simulate_text_simple y_gate_code) = 2
   \<and> probabilities (simulate_simple_circuit_docker y_gate_code) = [1, 0, 0, 0]"
proof -
  have p: "\<not> is_ghz (lower y_gate_code)" "\<not> is_bell_simple (lower y_gate_code)"
    "\<not> is_bell_docker (lower y_gate_code)"
    "\<not> is_superposition (lower y_gate_code)" "\<not> is_x_gate (lower y_gate_code)"
    by code_simp+
  have d: "''default'' \<notin> {''bell_state'', ''ghz_state'', ''superposition'', ''x_gate''}"
    by simp
  from fallback_unmatched_ground_state [of "''default''" 5 y_gate_code] p d
  show ?thesis by simp
qed

text \<open>
  C10: the \<^verbatim>\<open>num_qubits\<close> argument of \<^verbatim>\<open>simulate_simple_circuit\<close> has no influence on the
  result: every branch assigns \<^verbatim>\<open>num_qubits\<close> a constant before using it.
\<close>

theorem simulate_simple_circuit_ignores_num_qubits:
  "simulate_simple_circuit circuit_type a = simulate_simple_circuit circuit_type b"
  by (simp add: simulate_simple_circuit_def)

end
